theory Spec2Isabelle
  imports Complex_Main
begin

section \<open>Data model of primal\_genesis\_web\_interface.py\<close>

subsection \<open>The two closed enumerations\<close>

text \<open>
  Modelled from the spec: the enumerations \<open>PrimalGenesisProvider\<close> and \<open>MysticalMode\<close>
  are declared in \<open>src/ai_models/primal_genesis_model.py\<close>, which the interface imports and
  which is not part of the sources at hand. The spec fixes them as closed enumerations of
  seven providers and six modes. The members and their string values are the ones the
  interface itself names: \<open>PrimalGenesisProvider.MISTRAL\<close> and \<open>MysticalMode.SOVEREIGN\<close>
  in \<open>startup_event\<close>, the module docstring, and the \<open>option value\<close>s of the served page.
\<close>

datatype PrimalGenesisProvider =
  MISTRAL | OPENAI | ANTHROPIC | GEMINI | COHERE | DEEPSEEK | PHANTOM

datatype MysticalMode =
  SOVEREIGN | CREATIVE | TECHNICAL | WORKFLOW | GOVERNMENT | ETHEREAL

fun provider_value :: "PrimalGenesisProvider \<Rightarrow> string" where
  "provider_value MISTRAL = ''mistral''"
| "provider_value OPENAI = ''openai''"
| "provider_value ANTHROPIC = ''anthropic''"
| "provider_value GEMINI = ''gemini''"
| "provider_value COHERE = ''cohere''"
| "provider_value DEEPSEEK = ''deepseek''"
| "provider_value PHANTOM = ''phantom''"

fun mode_value :: "MysticalMode \<Rightarrow> string" where
  "mode_value SOVEREIGN = ''sovereign''"
| "mode_value CREATIVE = ''creative''"
| "mode_value TECHNICAL = ''technical''"
| "mode_value WORKFLOW = ''workflow''"
| "mode_value GOVERNMENT = ''government''"
| "mode_value ETHEREAL = ''ethereal''"

definition all_providers :: "PrimalGenesisProvider list" where
  "all_providers = [MISTRAL, OPENAI, ANTHROPIC, GEMINI, COHERE, DEEPSEEK, PHANTOM]"

definition all_modes :: "MysticalMode list" where
  "all_modes = [SOVEREIGN, CREATIVE, TECHNICAL, WORKFLOW, GOVERNMENT, ETHEREAL]"

definition provider_values :: "string list" where
  "provider_values = map provider_value all_providers"

definition mode_values :: "string list" where
  "mode_values = map mode_value all_modes"

subsection \<open>Exceptions and HTTP outcomes\<close>

text \<open>
  Every exception the handlers raise or catch is a value. \<open>HTTPException status detail\<close>
  is FastAPI's exception, which the framework turns into a response with that status;
  it is a subclass of \<open>Exception\<close>, so an \<open>except Exception\<close> clause catches it.
  The detail \<open>str(e)\<close> of a re-raised exception is kept structurally as \<open>StrOf e\<close>.
\<close>

datatype exn =
    ValueError string
  | KeyError string
  | AttributeError string
  | RuntimeError string
  | OSError string
  | WebSocketDisconnect
  | HTTPException nat detail
and detail =
    Text string
  | StrOf exn

text \<open>
  Calling an enumeration class on a string, \<open>PrimalGenesisProvider(s)\<close>: the member whose
  value is \<open>s\<close>, or \<open>ValueError\<close>.
\<close>

definition PrimalGenesisProvider_of :: "string \<Rightarrow> exn + PrimalGenesisProvider" where
  "PrimalGenesisProvider_of s =
     (case find (\<lambda>p. provider_value p = s) all_providers of
        Some p \<Rightarrow> Inr p
      | None \<Rightarrow> Inl (ValueError s))"

definition MysticalMode_of :: "string \<Rightarrow> exn + MysticalMode" where
  "MysticalMode_of s =
     (case find (\<lambda>m. mode_value m = s) all_modes of
        Some m \<Rightarrow> Inr m
      | None \<Rightarrow> Inl (ValueError s))"

subsection \<open>Request models (pydantic)\<close>

text \<open>
  \<open>TrafficRequest\<close>, \<open>ProviderConfig\<close> and \<open>MysticalModeRequest\<close>. The fields
  \<open>provider\<close> and \<open>mystical_mode\<close> of \<open>TrafficRequest\<close> and \<open>provider\<close> of
  \<open>ProviderConfig\<close> carry a prefix here, since the engine has attributes of the same
  names. \<open>intensity\<close> is a plain \<open>int\<close>: the model declares no bound on it.
\<close>

record TrafficRequest =
  target_url :: string
  behavior_type :: string
  intensity :: int
  req_provider :: "string option"
  req_mystical_mode :: "string option"

record ProviderConfig =
  cfg_provider :: string
  api_key :: string

record MysticalModeRequest =
  mode :: string

subsection \<open>The engine and the process-wide state\<close>

text \<open>
  Modelled from the spec: the class \<open>PrimalGenesisModel\<close> is declared in the absent module
  \<open>src/ai_models/primal_genesis_model.py\<close>. Following the spec's EngineConfiguration it
  holds the active provider identifier, the active mode identifier, the entropy level,
  the frequency and two feature toggles, with the readiness flag; \<open>provider_configs\<close> is
  the dictionary the handler \<open>switch_provider\<close> indexes, kept as an association list.
  Attributes of a Python object are untyped, so the two identifiers are strings: nothing
  in the type of the engine keeps them inside the enumerations. A member is held as its
  value.
\<close>

record PrimalGenesisModel =
  current_provider :: string
  mystical_mode :: string
  quantum_entropy_level :: int
  ethereal_frequency :: real
  enable_phantom_analytics :: bool
  enable_shadow_tendrils :: bool
  sovereign_awakened :: bool
  provider_configs :: "(PrimalGenesisProvider \<times> (string \<times> string) list) list"

text \<open>The dictionary \<open>get_sovereign_status\<close> returns; its keys are those the page reads.\<close>

record sovereign_status =
  st_sovereign_awakened :: bool
  st_current_provider :: string
  st_mystical_mode :: string
  st_ethereal_frequency :: real
  st_quantum_entropy_level :: int
  st_shadow_tendrils_active :: bool
  st_phantom_analytics_enabled :: bool

text \<open>The message a live-status subscriber receives: type, data, timestamp.\<close>

record ws_message =
  msg_type :: string
  msg_data :: "sovereign_status option"
  msg_timestamp :: string

text \<open>
  The effects the handlers perform on their collaborators, in the order they perform
  them. \<open>GenerateCall\<close> records the provider and mode identifiers the engine holds
  when the generation backend is invoked, with the three arguments of the call.
\<close>

datatype event =
    EnvironSet string string
  | SwitchProviderCall PrimalGenesisProvider
  | SwitchModeCall MysticalMode
  | GenerateCall string string string string int
  | Accept nat
  | SendText nat ws_message
  | Sleep nat

text \<open>
  The module's global state: \<open>primal_genesis\<close> (\<open>None\<close> until \<open>startup_event\<close> has
  run), \<open>active_connections\<close>, the process environment \<open>os.environ\<close>, the reading of
  \<open>datetime.now().isoformat()\<close>, and the trace of effects so far.
\<close>

record world =
  primal_genesis :: "PrimalGenesisModel option"
  active_connections :: "nat list"
  environ :: "string \<rightharpoonup> string"
  now_isoformat :: string
  trace :: "event list"

definition emit :: "event \<Rightarrow> world \<Rightarrow> world" where
  "emit ev w = w\<lparr>trace := trace w @ [ev]\<rparr>"

subsection \<open>Methods of the engine\<close>

text \<open>
  Modelled from the spec: \<open>PrimalGenesisModel.switch_provider\<close> and
  \<open>PrimalGenesisModel.switch_mystical_mode\<close> are the Registry's \<open>setProvider\<close> and
  \<open>setMode\<close>, which commit what they are given as the active identifier; the check
  against the enumeration is the handler's call of the enumeration class, so the setters
  store their argument as it is. \<open>PrimalGenesisModel.get_sovereign_status\<close> is the
  Registry's \<open>get\<close>, a snapshot of the configuration with no side effect.
\<close>

definition PrimalGenesisModel_switch_provider ::
    "string \<Rightarrow> PrimalGenesisModel \<Rightarrow> PrimalGenesisModel" where
  "PrimalGenesisModel_switch_provider v e = e\<lparr>current_provider := v\<rparr>"

definition PrimalGenesisModel_switch_mystical_mode ::
    "string \<Rightarrow> PrimalGenesisModel \<Rightarrow> PrimalGenesisModel" where
  "PrimalGenesisModel_switch_mystical_mode v e = e\<lparr>mystical_mode := v\<rparr>"

definition PrimalGenesisModel_get_sovereign_status ::
    "PrimalGenesisModel \<Rightarrow> sovereign_status" where
  "PrimalGenesisModel_get_sovereign_status e =
     \<lparr>st_sovereign_awakened = sovereign_awakened e,
      st_current_provider = current_provider e,
      st_mystical_mode = mystical_mode e,
      st_ethereal_frequency = ethereal_frequency e,
      st_quantum_entropy_level = quantum_entropy_level e,
      st_shadow_tendrils_active = enable_shadow_tendrils e,
      st_phantom_analytics_enabled = enable_phantom_analytics e\<rparr>"

text \<open>
  The generation backend \<open>PrimalGenesisModel.generate_traffic_pattern\<close> and
  \<open>json.loads\<close> are collaborators whose algorithm is out of scope: they are parameters
  of the model. The backend sees the engine as it is at the call and either raises or
  returns a response with \<open>content\<close> and \<open>metadata\<close>; per the spec it does not write the
  Registry.
\<close>

record ModelResponse =
  content :: string
  metadata :: "(string \<times> string) list"

record collaborators =
  generate_traffic_pattern ::
    "PrimalGenesisModel \<Rightarrow> string \<Rightarrow> string \<Rightarrow> int \<Rightarrow> exn + ModelResponse"
  json_loads :: "string \<Rightarrow> exn + string"

text \<open>The calls \<open>primal_genesis.switch_provider(provider)\<close> and
  \<open>primal_genesis.switch_mystical_mode(mode)\<close> on the global engine, with the member the
  handler has obtained from the enumeration class.\<close>

definition call_switch_provider :: "PrimalGenesisProvider \<Rightarrow> world \<Rightarrow> world" where
  "call_switch_provider p w =
     emit (SwitchProviderCall p)
       (w\<lparr>primal_genesis :=
            map_option (PrimalGenesisModel_switch_provider (provider_value p))
              (primal_genesis w)\<rparr>)"

definition call_switch_mystical_mode :: "MysticalMode \<Rightarrow> world \<Rightarrow> world" where
  "call_switch_mystical_mode m w =
     emit (SwitchModeCall m)
       (w\<lparr>primal_genesis :=
            map_option (PrimalGenesisModel_switch_mystical_mode (mode_value m))
              (primal_genesis w)\<rparr>)"

section \<open>The request handlers\<close>

text \<open>
  Each handler is a \<open>try\<close> body followed by \<open>except Exception as e: raise
  HTTPException(status_code=500, detail=str(e))\<close>. The body is modelled first, as a
  function to an exception or a response body together with the state it leaves; the
  \<open>except\<close> clause is \<open>except_Exception\<close>. Logging is not modelled.
\<close>

datatype body =
    TrafficBody string "(string \<times> string) list" string
  | SwitchProviderBody string string string
  | SwitchModeBody string string string
  | StatusBody sovereign_status

type_synonym outcome = "(exn + body) \<times> world"

definition not_initialized :: exn where
  "not_initialized = HTTPException 500 (Text ''Primal Genesis Engine not initialized'')"

definition except_Exception :: "outcome \<Rightarrow> outcome" where
  "except_Exception r =
     (case r of
        (Inl e, w) \<Rightarrow> (Inl (HTTPException 500 (StrOf e)), w)
      | (Inr b, w) \<Rightarrow> (Inr b, w))"

text \<open>The status of the HTTP response: 200 for a returned body, the status of a raised
  \<open>HTTPException\<close>, 500 for any other exception that leaves a handler.\<close>

fun status_code :: "exn + body \<Rightarrow> nat" where
  "status_code (Inr _) = 200"
| "status_code (Inl (HTTPException c _)) = c"
| "status_code (Inl _) = 500"

subsection \<open>POST /api/generate-traffic\<close>

text \<open>\<open>if request.provider:\<close> is false for \<open>None\<close> and for the empty string.\<close>

definition provider_override :: "TrafficRequest \<Rightarrow> world \<Rightarrow> (exn + unit) \<times> world" where
  "provider_override request w =
     (case req_provider request of
        None \<Rightarrow> (Inr (), w)
      | Some s \<Rightarrow>
          if s = [] then (Inr (), w)
          else (case PrimalGenesisProvider_of s of
                  Inl _ \<Rightarrow> (Inl (HTTPException 400 (Text (''Invalid provider: '' @ s))), w)
                | Inr p \<Rightarrow> (Inr (), call_switch_provider p w)))"

definition mode_override :: "TrafficRequest \<Rightarrow> world \<Rightarrow> (exn + unit) \<times> world" where
  "mode_override request w =
     (case req_mystical_mode request of
        None \<Rightarrow> (Inr (), w)
      | Some s \<Rightarrow>
          if s = [] then (Inr (), w)
          else (case MysticalMode_of s of
                  Inl _ \<Rightarrow> (Inl (HTTPException 400 (Text (''Invalid mystical mode: '' @ s))), w)
                | Inr m \<Rightarrow> (Inr (), call_switch_mystical_mode m w)))"

text \<open>\<open>await primal_genesis.generate_traffic_pattern(target_url=..., behavior_type=...,
  intensity=request.intensity)\<close>: the intensity is passed as it came.\<close>

definition call_generate ::
    "collaborators \<Rightarrow> TrafficRequest \<Rightarrow> world \<Rightarrow> (exn + ModelResponse) \<times> world" where
  "call_generate X request w =
     (case primal_genesis w of
        None \<Rightarrow> (Inl (AttributeError ''generate_traffic_pattern''), w)
      | Some e \<Rightarrow>
          (generate_traffic_pattern X e
             (target_url request) (behavior_type request) (intensity request),
           emit (GenerateCall (current_provider e) (mystical_mode e)
                   (target_url request) (behavior_type request) (intensity request)) w))"

definition generate_traffic_try :: "collaborators \<Rightarrow> TrafficRequest \<Rightarrow> world \<Rightarrow> outcome" where
  "generate_traffic_try X request w =
     (case primal_genesis w of
        None \<Rightarrow> (Inl not_initialized, w)
      | Some _ \<Rightarrow>
          (case provider_override request w of
             (Inl e, w1) \<Rightarrow> (Inl e, w1)
           | (Inr _, w1) \<Rightarrow>
               (case mode_override request w1 of
                  (Inl e, w2) \<Rightarrow> (Inl e, w2)
                | (Inr _, w2) \<Rightarrow>
                    (case call_generate X request w2 of
                       (Inl e, w3) \<Rightarrow> (Inl e, w3)
                     | (Inr response, w3) \<Rightarrow>
                         (case json_loads X (content response) of
                            Inl e \<Rightarrow> (Inl e, w3)
                          | Inr pattern \<Rightarrow>
                              (Inr (TrafficBody pattern (metadata response)
                                      (now_isoformat w3)), w3))))))"

definition generate_traffic :: "collaborators \<Rightarrow> TrafficRequest \<Rightarrow> world \<Rightarrow> outcome" where
  "generate_traffic X request w = except_Exception (generate_traffic_try X request w)"

subsection \<open>POST /api/switch-provider\<close>

text \<open>
  \<open>os.environ[name] = value\<close> raises \<open>ValueError\<close> for a name or value with a null
  character and for a name with \<open>=\<close>, and \<open>OSError\<close> (invalid argument) for an empty
  name; otherwise it stores the value.
\<close>

definition environ_setitem :: "string \<Rightarrow> string \<Rightarrow> world \<Rightarrow> exn + world" where
  "environ_setitem name val w =
     (if CHR 0x00 \<in> set name \<or> CHR 0x00 \<in> set val then Inl (ValueError ''embedded null byte'')
      else if CHR ''='' \<in> set name then Inl (ValueError ''illegal environment variable name'')
      else if name = [] then Inl (OSError ''[Errno 22] Invalid argument'')
      else Inr (emit (EnvironSet name val) (w\<lparr>environ := (environ w)(name \<mapsto> val)\<rparr>)))"

text \<open>\<open>os.environ[primal_genesis.provider_configs[PrimalGenesisProvider(config.provider)]
  ["api_key_env"]] = config.api_key\<close>\<close>

definition set_api_key :: "ProviderConfig \<Rightarrow> PrimalGenesisModel \<Rightarrow> world \<Rightarrow> exn + world" where
  "set_api_key config e w =
     (case PrimalGenesisProvider_of (cfg_provider config) of
        Inl x \<Rightarrow> Inl x
      | Inr p \<Rightarrow>
          (case map_of (provider_configs e) p of
             None \<Rightarrow> Inl (KeyError (provider_value p))
           | Some d \<Rightarrow>
               (case map_of d ''api_key_env'' of
                  None \<Rightarrow> Inl (KeyError ''api_key_env'')
                | Some name \<Rightarrow> environ_setitem name (api_key config) w)))"

definition switch_provider_try :: "ProviderConfig \<Rightarrow> world \<Rightarrow> outcome" where
  "switch_provider_try config w =
     (case primal_genesis w of
        None \<Rightarrow> (Inl not_initialized, w)
      | Some e \<Rightarrow>
          (case (if api_key config \<noteq> [] then set_api_key config e w else Inr w) of
             Inl x \<Rightarrow> (Inl x, w)
           | Inr w1 \<Rightarrow>
               (case PrimalGenesisProvider_of (cfg_provider config) of
                  Inl x \<Rightarrow> (Inl x, w1)
                | Inr p \<Rightarrow>
                    (let w2 = call_switch_provider p w1
                     in (Inr (SwitchProviderBody
                                (''Switched to '' @ cfg_provider config @ '' provider'')
                                (cfg_provider config) (now_isoformat w2)), w2)))))"

definition switch_provider :: "ProviderConfig \<Rightarrow> world \<Rightarrow> outcome" where
  "switch_provider config w = except_Exception (switch_provider_try config w)"

subsection \<open>POST /api/switch-mode\<close>

definition switch_mystical_mode_try :: "MysticalModeRequest \<Rightarrow> world \<Rightarrow> outcome" where
  "switch_mystical_mode_try request w =
     (case primal_genesis w of
        None \<Rightarrow> (Inl not_initialized, w)
      | Some _ \<Rightarrow>
          (case MysticalMode_of (mode request) of
             Inl x \<Rightarrow> (Inl x, w)
           | Inr m \<Rightarrow>
               (let w1 = call_switch_mystical_mode m w
                in (Inr (SwitchModeBody
                           (''Switched to '' @ mode request @ '' mystical mode'')
                           (mode request) (now_isoformat w1)), w1))))"

definition switch_mystical_mode :: "MysticalModeRequest \<Rightarrow> world \<Rightarrow> outcome" where
  "switch_mystical_mode request w = except_Exception (switch_mystical_mode_try request w)"

subsection \<open>GET /api/sovereign-status\<close>

definition get_sovereign_status_try :: "world \<Rightarrow> outcome" where
  "get_sovereign_status_try w =
     (case primal_genesis w of
        None \<Rightarrow> (Inl not_initialized, w)
      | Some e \<Rightarrow> (Inr (StatusBody (PrimalGenesisModel_get_sovereign_status e)), w))"

definition get_sovereign_status :: "world \<Rightarrow> outcome" where
  "get_sovereign_status w = except_Exception (get_sovereign_status_try w)"

subsection \<open>Startup\<close>

text \<open>
  \<open>startup_event\<close> builds the engine with the default provider \<open>MISTRAL\<close>, the default
  mode \<open>SOVEREIGN\<close>, both toggles on, entropy 42 and frequency 144, and stores it in the
  global; if the constructor raises, the exception is raised again and the global stays
  as it was. The constructor \<open>PrimalGenesisModel(config)\<close> belongs to the absent module and
  is a parameter.
\<close>

type_synonym constructor =
  "PrimalGenesisProvider \<Rightarrow> MysticalMode \<Rightarrow> bool \<Rightarrow> bool \<Rightarrow> int \<Rightarrow> real \<Rightarrow> exn + PrimalGenesisModel"

definition startup_event :: "constructor \<Rightarrow> world \<Rightarrow> exn + world" where
  "startup_event mk w =
     (case mk MISTRAL SOVEREIGN True True 42 144 of
        Inl e \<Rightarrow> Inl e
      | Inr m \<Rightarrow> Inr (w\<lparr>primal_genesis := Some m\<rparr>))"

subsection \<open>The live-status channel /ws\<close>

text \<open>
  The message of one cycle: \<open>{"type": "status_update", "data":
  primal_genesis.get_sovereign_status() if primal_genesis else {}, "timestamp": ...}\<close>.
  The empty dictionary is \<open>None\<close> in \<open>msg_data\<close>.
\<close>

definition status_update :: "world \<Rightarrow> ws_message" where
  "status_update w =
     \<lparr>msg_type = ''status_update'',
      msg_data = map_option PrimalGenesisModel_get_sovereign_status (primal_genesis w),
      msg_timestamp = now_isoformat w\<rparr>"

text \<open>
  The loop \<open>while True: await websocket.send_text(...); await asyncio.sleep(30)\<close>. Each
  cycle builds the message from the global engine and the clock as they are at that
  moment, sends it, and sleeps 30. What lies outside the handler is given as a schedule
  with one entry per cycle. Either the send is delivered, and the entry tells what the
  handler finds when it wakes from its sleep: the global engine as the other tasks have
  left it, and the reading of the clock. Or the peer is gone and the send raises
  \<open>WebSocketDisconnect\<close>, the exception into which the framework's \<open>send\<close> turns a
  failure of the transport. When the schedule is used up the handler is still in its
  loop, and the result is \<open>None\<close>; otherwise it is the exception that left the loop.
\<close>

datatype cycle = Delivered "PrimalGenesisModel option" string | Disconnected

fun send_loop :: "nat \<Rightarrow> cycle list \<Rightarrow> world \<Rightarrow> exn option \<times> world" where
  "send_loop ws [] w = (None, w)"
| "send_loop ws (Delivered found clock # rest) w =
     send_loop ws rest
       ((emit (Sleep 30) (emit (SendText ws (status_update w)) w))
          \<lparr>primal_genesis := found, now_isoformat := clock\<rparr>)"
| "send_loop ws (Disconnected # rest) w = (Some WebSocketDisconnect, w)"

text \<open>\<open>list.remove(x)\<close> deletes the first occurrence and raises \<open>ValueError\<close> when there
  is none.\<close>

definition list_remove :: "nat \<Rightarrow> nat list \<Rightarrow> exn + nat list" where
  "list_remove x xs = (if x \<in> set xs then Inr (remove1 x xs) else Inl (ValueError ''x not in list''))"

text \<open>
  How a run of the handler stands at the end of the schedule: still in the loop, returned
  through \<open>except WebSocketDisconnect\<close>, or left by an exception that clause does not
  catch.
\<close>

datatype ws_exit = InLoop | Returned | Propagated exn

definition websocket_endpoint :: "nat \<Rightarrow> cycle list \<Rightarrow> world \<Rightarrow> ws_exit \<times> world" where
  "websocket_endpoint ws schedule w =
     (let w1 = emit (Accept ws) w;
          w2 = w1\<lparr>active_connections := active_connections w1 @ [ws]\<rparr>
      in case send_loop ws schedule w2 of
           (None, w3) \<Rightarrow> (InLoop, w3)
         | (Some WebSocketDisconnect, w3) \<Rightarrow>
             (case list_remove ws (active_connections w3) of
                Inl e \<Rightarrow> (Propagated e, w3)
              | Inr conns \<Rightarrow> (Returned, w3\<lparr>active_connections := conns\<rparr>))
         | (Some e, w3) \<Rightarrow> (Propagated e, w3))"

subsection \<open>Runs of request/response operations\<close>

datatype operation =
    RequestGeneration TrafficRequest
  | SwitchProvider ProviderConfig
  | SwitchMode MysticalModeRequest
  | GetStatus

fun run_operation :: "collaborators \<Rightarrow> operation \<Rightarrow> world \<Rightarrow> outcome" where
  "run_operation X (RequestGeneration request) w = generate_traffic X request w"
| "run_operation X (SwitchProvider config) w = switch_provider config w"
| "run_operation X (SwitchMode request) w = switch_mystical_mode request w"
| "run_operation X GetStatus w = get_sovereign_status w"

fun run_operations :: "collaborators \<Rightarrow> operation list \<Rightarrow> world \<Rightarrow> world" where
  "run_operations X [] w = w"
| "run_operations X (op # ops) w = run_operations X ops (snd (run_operation X op w))"

text \<open>The number of invocations of the generation backend recorded in a trace.\<close>

definition is_generate :: "event \<Rightarrow> bool" where
  "is_generate ev = (case ev of GenerateCall _ _ _ _ _ \<Rightarrow> True | _ \<Rightarrow> False)"

definition adapter_calls :: "world \<Rightarrow> nat" where
  "adapter_calls w = length (filter is_generate (trace w))"

text \<open>What \<open>GetStatus\<close> reports of the provider and the mode, if the engine is there.\<close>

definition reported_provider :: "world \<Rightarrow> string option" where
  "reported_provider w =
     (case fst (get_sovereign_status w) of
        Inr (StatusBody st) \<Rightarrow> Some (st_current_provider st)
      | _ \<Rightarrow> None)"

definition reported_mode :: "world \<Rightarrow> string option" where
  "reported_mode w =
     (case fst (get_sovereign_status w) of
        Inr (StatusBody st) \<Rightarrow> Some (st_mystical_mode st)
      | _ \<Rightarrow> None)"

text \<open>
  An override of a generation request the handler lets pass: absent, empty (which
  \<open>if request.provider:\<close> skips), or the value of a member.
\<close>

definition provider_acceptable :: "TrafficRequest \<Rightarrow> bool" where
  "provider_acceptable request =
     (case req_provider request of
        None \<Rightarrow> True
      | Some s \<Rightarrow> s = [] \<or> s \<in> set provider_values)"

definition mode_acceptable :: "TrafficRequest \<Rightarrow> bool" where
  "mode_acceptable request =
     (case req_mystical_mode request of
        None \<Rightarrow> True
      | Some s \<Rightarrow> s = [] \<or> s \<in> set mode_values)"

text \<open>The Registry invariant of the spec: the engine is there, and the provider and the
  mode it holds are values of the two enumerations.\<close>

definition registry_inv :: "world \<Rightarrow> bool" where
  "registry_inv w =
     (case primal_genesis w of
        None \<Rightarrow> False
      | Some e \<Rightarrow>
          current_provider e \<in> set provider_values \<and>
          mystical_mode e \<in> set mode_values)"

text \<open>
  The constructor of the engine, a parameter of \<open>startup_event\<close>, installs the defaults
  it is given: when it returns an engine for the configuration of \<open>startup_event\<close>, the
  engine holds the provider and the mode of that configuration.
\<close>

definition installs_defaults :: "constructor \<Rightarrow> bool" where
  "installs_defaults mk =
     (case mk MISTRAL SOVEREIGN True True 42 144 of
        Inl _ \<Rightarrow> True
      | Inr e \<Rightarrow>
          current_provider e = provider_value MISTRAL \<and>
          mystical_mode e = mode_value SOVEREIGN)"

text \<open>
  The outcome of the overrides of a generation request, in the words of the spec: the
  provider and the mode in force once the overrides have been applied (an override that
  is a value of its enumeration replaces what was there; an absent or empty one does
  not), and the switches this takes.
\<close>

definition committed_provider :: "TrafficRequest \<Rightarrow> PrimalGenesisModel \<Rightarrow> string" where
  "committed_provider request e =
     (case req_provider request of
        None \<Rightarrow> current_provider e
      | Some s \<Rightarrow> if s \<in> set provider_values then s else current_provider e)"

definition committed_mode :: "TrafficRequest \<Rightarrow> PrimalGenesisModel \<Rightarrow> string" where
  "committed_mode request e =
     (case req_mystical_mode request of
        None \<Rightarrow> mystical_mode e
      | Some s \<Rightarrow> if s \<in> set mode_values then s else mystical_mode e)"

definition provider_switches :: "TrafficRequest \<Rightarrow> event list" where
  "provider_switches request =
     (case req_provider request of
        None \<Rightarrow> []
      | Some s \<Rightarrow>
          map SwitchProviderCall (filter (\<lambda>p. provider_value p = s) all_providers))"

definition mode_switches :: "TrafficRequest \<Rightarrow> event list" where
  "mode_switches request =
     (case req_mystical_mode request of
        None \<Rightarrow> []
      | Some s \<Rightarrow> map SwitchModeCall (filter (\<lambda>m. mode_value m = s) all_modes))"

text \<open>What the live-status handler finds on each wake while its sends are delivered:
  the entries of the schedule before the first disconnect.\<close>

fun found_on_wake :: "cycle list \<Rightarrow> (PrimalGenesisModel option \<times> string) list" where
  "found_on_wake [] = []"
| "found_on_wake (Delivered found clock # rest) = (found, clock) # found_on_wake rest"
| "found_on_wake (Disconnected # rest) = []"


subsection \<open>Concrete states for evaluation\<close>

text \<open>
  The engine as \<open>startup_event\<close> configures it, with one entry in \<open>provider_configs\<close>;
  a fresh process state around it; the same state before startup; and the generation
  backend stubbed as in the spec's end-to-end scenario, returning content \<open>{}\<close> and empty
  metadata.
\<close>

definition engine0 :: PrimalGenesisModel where
  "engine0 =
     \<lparr>current_provider = ''mistral'', mystical_mode = ''sovereign'',
      quantum_entropy_level = 42,
      ethereal_frequency = 144, enable_phantom_analytics = True,
      enable_shadow_tendrils = True, sovereign_awakened = True,
      provider_configs = [(OPENAI, [(''api_key_env'', ''OPENAI_API_KEY'')])]\<rparr>"

definition world0 :: world where
  "world0 =
     \<lparr>primal_genesis = Some engine0, active_connections = [], environ = Map.empty,
      now_isoformat = ''2024-01-01T00:00:00'', trace = []\<rparr>"

definition cold0 :: world where
  "cold0 = world0\<lparr>primal_genesis := None\<rparr>"

definition stub :: collaborators where
  "stub =
     \<lparr>generate_traffic_pattern = (\<lambda>e t b i. Inr \<lparr>content = ''{}'', metadata = []\<rparr>),
      json_loads = (\<lambda>s. Inr s)\<rparr>"

definition failing :: collaborators where
  "failing =
     \<lparr>generate_traffic_pattern = (\<lambda>e t b i. Inl (RuntimeError ''backend failed'')),
      json_loads = (\<lambda>s. Inr s)\<rparr>"

definition request0 :: TrafficRequest where
  "request0 =
     \<lparr>target_url = ''https://example.com'', behavior_type = ''organic'', intensity = 5,
      req_provider = None, req_mystical_mode = None\<rparr>"

definition request_c2 :: TrafficRequest where
  "request_c2 = request0\<lparr>req_provider := Some ''openai'', req_mystical_mode := Some ''bogus''\<rparr>"

definition request_c4 :: TrafficRequest where
  "request_c4 = request0\<lparr>req_provider := Some ''openai''\<rparr>"

definition construct0 :: constructor where
  "construct0 p m analytics tendrils entropy frequency =
     Inr \<lparr>current_provider = provider_value p, mystical_mode = mode_value m,
          quantum_entropy_level = entropy,
          ethereal_frequency = frequency, enable_phantom_analytics = analytics,
          enable_shadow_tendrils = tendrils, sovereign_awakened = True,
          provider_configs = [(OPENAI, [(''api_key_env'', ''OPENAI_API_KEY'')])]\<rparr>"

definition operations0 :: "operation list" where
  "operations0 =
     [SwitchProvider \<lparr>cfg_provider = ''openai'', api_key = ''sk-1''\<rparr>,
      SwitchProvider \<lparr>cfg_provider = ''bogus'', api_key = ''''\<rparr>,
      SwitchMode \<lparr>mode = ''ethereal''\<rparr>,
      RequestGeneration request_c2,
      SwitchMode \<lparr>mode = ''''\<rparr>,
      GetStatus]"

definition config0 :: ProviderConfig where
  "config0 = \<lparr>cfg_provider = ''openai'', api_key = ''sk-1''\<rparr>"

text \<open>The message of a cycle when the engine is absent: \<open>data\<close> is \<open>{}\<close>.\<close>

definition empty_update :: "string \<Rightarrow> ws_message" where
  "empty_update clock =
     \<lparr>msg_type = ''status_update'', msg_data = None, msg_timestamp = clock\<rparr>"

definition request_bad_provider :: TrafficRequest where
  "request_bad_provider = request0\<lparr>req_provider := Some ''bogus'', req_mystical_mode := Some ''ethereal''\<rparr>"

definition request_empty_provider :: TrafficRequest where
  "request_empty_provider = request0\<lparr>req_provider := Some '''', req_mystical_mode := Some ''ethereal''\<rparr>"

text \<open>A schedule of the live-status channel: two delivered cycles, with the provider
  switched to \<open>openai\<close> by another task during the first sleep, then a disconnect.\<close>

definition schedule0 :: "cycle list" where
  "schedule0 =
     [Delivered (Some (engine0\<lparr>current_provider := ''openai''\<rparr>)) ''2024-01-01T00:00:30'',
      Delivered (Some (engine0\<lparr>current_provider := ''openai''\<rparr>)) ''2024-01-01T00:01:00'',
      Disconnected]"

section \<open>Basic facts\<close>

subsection \<open>Parsing the enumerations\<close>

lemma PrimalGenesisProvider_of_value: "PrimalGenesisProvider_of (provider_value p) = Inr p"
  by (cases p) (simp_all add: PrimalGenesisProvider_of_def all_providers_def)

lemma MysticalMode_of_value: "MysticalMode_of (mode_value m) = Inr m"
  by (cases m) (simp_all add: MysticalMode_of_def all_modes_def)

lemma PrimalGenesisProvider_of_Inr: "PrimalGenesisProvider_of s = Inr p \<Longrightarrow> provider_value p = s"
  by (auto simp: PrimalGenesisProvider_of_def find_Some_iff split: option.splits)

lemma MysticalMode_of_Inr: "MysticalMode_of s = Inr m \<Longrightarrow> mode_value m = s"
  by (auto simp: MysticalMode_of_def find_Some_iff split: option.splits)

lemma PrimalGenesisProvider_of_invalid:
  "s \<notin> set provider_values \<Longrightarrow> PrimalGenesisProvider_of s = Inl (ValueError s)"
  by (auto simp: PrimalGenesisProvider_of_def provider_values_def find_None_iff split: option.splits)

lemma MysticalMode_of_invalid:
  "s \<notin> set mode_values \<Longrightarrow> MysticalMode_of s = Inl (ValueError s)"
  by (auto simp: MysticalMode_of_def mode_values_def find_None_iff split: option.splits)

lemma PrimalGenesisProvider_of_valid:
  "s \<in> set provider_values \<Longrightarrow> \<exists>p. PrimalGenesisProvider_of s = Inr p \<and> provider_value p = s"
  by (auto simp: provider_values_def PrimalGenesisProvider_of_value)

lemma MysticalMode_of_valid:
  "s \<in> set mode_values \<Longrightarrow> \<exists>m. MysticalMode_of s = Inr m \<and> mode_value m = s"
  by (auto simp: mode_values_def MysticalMode_of_value)

lemma provider_value_in: "provider_value p \<in> set provider_values"
  by (cases p) (simp_all add: provider_values_def all_providers_def)

lemma mode_value_in: "mode_value m \<in> set mode_values"
  by (cases m) (simp_all add: mode_values_def all_modes_def)

lemma snd_except_Exception: "snd (except_Exception r) = snd r"
  by (cases r) (auto simp: except_Exception_def split: sum.splits)

lemma status_except_Exception:
  "status_code (fst (except_Exception r)) = (case fst r of Inl _ \<Rightarrow> 500 | Inr _ \<Rightarrow> 200)"
  by (cases r) (auto simp: except_Exception_def split: sum.splits)


lemma trace_emit: "trace (emit ev w) = trace w @ [ev]"
  by (simp add: emit_def)

lemma primal_genesis_emit: "primal_genesis (emit ev w) = primal_genesis w"
  by (simp add: emit_def)

lemma adapter_calls_emit:
  "adapter_calls (emit ev w) = (if is_generate ev then Suc (adapter_calls w) else adapter_calls w)"
  by (simp add: adapter_calls_def emit_def)

lemma call_switch_provider_simps:
  "trace (call_switch_provider p w) = trace w @ [SwitchProviderCall p]"
  "primal_genesis (call_switch_provider p w) =
     map_option (PrimalGenesisModel_switch_provider (provider_value p)) (primal_genesis w)"
  "adapter_calls (call_switch_provider p w) = adapter_calls w"
  by (simp_all add: call_switch_provider_def emit_def adapter_calls_def is_generate_def)

lemma call_switch_mystical_mode_simps:
  "trace (call_switch_mystical_mode m w) = trace w @ [SwitchModeCall m]"
  "primal_genesis (call_switch_mystical_mode m w) =
     map_option (PrimalGenesisModel_switch_mystical_mode (mode_value m)) (primal_genesis w)"
  "adapter_calls (call_switch_mystical_mode m w) = adapter_calls w"
  by (simp_all add: call_switch_mystical_mode_def emit_def adapter_calls_def is_generate_def)

text \<open>The three ways the provider override can go.\<close>

lemma provider_override_cases:
  obtains (skip) "req_provider r = None \<or> req_provider r = Some []" "provider_override r w = (Inr (), w)"
  | (switch) s p where "req_provider r = Some s" "s \<noteq> []" "PrimalGenesisProvider_of s = Inr p"
      "provider_override r w = (Inr (), call_switch_provider p w)"
  | (reject) s where "req_provider r = Some s" "s \<noteq> []" "s \<notin> set provider_values"
      "provider_override r w = (Inl (HTTPException 400 (Text (''Invalid provider: '' @ s))), w)"
proof (cases "req_provider r")
  case None
  then show ?thesis using skip by (simp add: provider_override_def)
next
  case (Some s)
  show ?thesis
  proof (cases "s = []")
    case True
    with Some show ?thesis using skip by (simp add: provider_override_def)
  next
    case False
    show ?thesis
    proof (cases "PrimalGenesisProvider_of s")
      case (Inl x)
      have "s \<notin> set provider_values"
        using Inl PrimalGenesisProvider_of_valid by fastforce
      with Some False Inl show ?thesis using reject by (simp add: provider_override_def)
    next
      case (Inr p)
      with Some False show ?thesis using switch by (simp add: provider_override_def)
    qed
  qed
qed

lemma mode_override_cases:
  obtains (skip) "req_mystical_mode r = None \<or> req_mystical_mode r = Some []" "mode_override r w = (Inr (), w)"
  | (switch) s m where "req_mystical_mode r = Some s" "s \<noteq> []" "MysticalMode_of s = Inr m"
      "mode_override r w = (Inr (), call_switch_mystical_mode m w)"
  | (reject) s where "req_mystical_mode r = Some s" "s \<noteq> []" "s \<notin> set mode_values"
      "mode_override r w = (Inl (HTTPException 400 (Text (''Invalid mystical mode: '' @ s))), w)"
proof (cases "req_mystical_mode r")
  case None
  then show ?thesis using skip by (simp add: mode_override_def)
next
  case (Some s)
  show ?thesis
  proof (cases "s = []")
    case True
    with Some show ?thesis using skip by (simp add: mode_override_def)
  next
    case False
    show ?thesis
    proof (cases "MysticalMode_of s")
      case (Inl x)
      have "s \<notin> set mode_values"
        using Inl MysticalMode_of_valid by fastforce
      with Some False Inl show ?thesis using reject by (simp add: mode_override_def)
    next
      case (Inr m)
      with Some False show ?thesis using switch by (simp add: mode_override_def)
    qed
  qed
qed

lemma provider_override_keeps:
  "primal_genesis w \<noteq> None \<Longrightarrow> primal_genesis (snd (provider_override r w)) \<noteq> None"
  "adapter_calls (snd (provider_override r w)) = adapter_calls w"
  by (cases r w rule: provider_override_cases; simp add: call_switch_provider_simps)+

lemma mode_override_keeps:
  "primal_genesis w \<noteq> None \<Longrightarrow> primal_genesis (snd (mode_override r w)) \<noteq> None"
  "adapter_calls (snd (mode_override r w)) = adapter_calls w"
  by (cases r w rule: mode_override_cases; simp add: call_switch_mystical_mode_simps)+

lemma provider_override_accept:
  "provider_acceptable r \<Longrightarrow> fst (provider_override r w) = Inr ()"
  by (cases r w rule: provider_override_cases) (auto simp: provider_acceptable_def)

lemma mode_override_accept:
  "mode_acceptable r \<Longrightarrow> fst (mode_override r w) = Inr ()"
  by (cases r w rule: mode_override_cases) (auto simp: mode_acceptable_def)

text \<open>The handler past both overrides: the backend is invoked once.\<close>

lemma call_generate_Some:
  "primal_genesis w = Some e \<Longrightarrow>
   snd (call_generate X r w) =
     emit (GenerateCall (current_provider e) (mystical_mode e)
             (target_url r) (behavior_type r) (intensity r)) w"
  by (simp add: call_generate_def)


lemma generate_traffic_accepted:
  assumes e: "primal_genesis w = Some e"
    and p: "provider_override r w = (Inr (), w1)"
    and m: "mode_override r w1 = (Inr (), w2)"
  shows "snd (generate_traffic X r w) = snd (call_generate X r w2)"
    and "status_code (fst (generate_traffic X r w)) \<noteq> 400"
proof -
  have "primal_genesis w1 \<noteq> None"
    using provider_override_keeps(1)[of w r] e p by simp
  then have "primal_genesis w2 \<noteq> None"
    using mode_override_keeps(1)[of w1 r] m by simp
  then obtain e2 where e2: "primal_genesis w2 = Some e2" by blast
  show "snd (generate_traffic X r w) = snd (call_generate X r w2)"
    using e p m e2
    by (simp add: generate_traffic_def generate_traffic_try_def snd_except_Exception
        call_generate_def split: sum.splits prod.splits)
  show "status_code (fst (generate_traffic X r w)) \<noteq> 400"
    by (simp add: generate_traffic_def status_except_Exception split: sum.splits)
qed

text \<open>The definitions a concrete evaluation unfolds.\<close>

lemmas eval_defs =
  generate_traffic_def generate_traffic_try_def except_Exception_def provider_override_def
  mode_override_def call_generate_def call_switch_provider_def call_switch_mystical_mode_def
  emit_def adapter_calls_def is_generate_def
  PrimalGenesisProvider_of_def MysticalMode_of_def all_providers_def all_modes_def
  provider_values_def mode_values_def provider_acceptable_def mode_acceptable_def
  PrimalGenesisModel_switch_provider_def PrimalGenesisModel_switch_mystical_mode_def
  PrimalGenesisModel_get_sovereign_status_def
  switch_provider_def switch_provider_try_def set_api_key_def environ_setitem_def
  switch_mystical_mode_def switch_mystical_mode_try_def
  get_sovereign_status_def get_sovereign_status_try_def not_initialized_def
  reported_provider_def reported_mode_def registry_inv_def
  committed_provider_def committed_mode_def provider_switches_def mode_switches_def
  world0_def engine0_def cold0_def stub_def failing_def request0_def

section \<open>Intensity is not validated by the handler\<close>

text \<open>
  C1 (as the code has it). \<open>generate_traffic\<close> has no check of \<open>request.intensity\<close>
  against the range 1 to 10: for every request, whatever its intensity, on an initialised
  engine and with overrides that are absent, empty or values of their enumerations, the
  generation backend is invoked exactly once, the call carries the intensity as it came,
  and the response is never a 400; with no override at all the engine is left as it was.
\<close>

theorem generate_traffic_intensity_unchecked:
  assumes "primal_genesis w = Some e" and "provider_acceptable request"
    and "mode_acceptable request"
  shows "adapter_calls (snd (generate_traffic X request w)) = Suc (adapter_calls w) \<and>
         (\<exists>p m. last (trace (snd (generate_traffic X request w))) =
            GenerateCall p m (target_url request) (behavior_type request) (intensity request)) \<and>
         status_code (fst (generate_traffic X request w)) \<noteq> 400 \<and>
         (req_provider request = None \<and> req_mystical_mode request = None \<longrightarrow>
            primal_genesis (snd (generate_traffic X request w)) = primal_genesis w)"
proof -
  obtain w1 where p: "provider_override request w = (Inr (), w1)"
    using provider_override_accept[OF assms(2), of w] by (cases "provider_override request w") auto
  obtain w2 where m: "mode_override request w1 = (Inr (), w2)"
    using mode_override_accept[OF assms(3), of w1] by (cases "mode_override request w1") auto
  have "primal_genesis w1 \<noteq> None"
    using provider_override_keeps(1)[of w request] assms(1) p by simp
  then have "primal_genesis w2 \<noteq> None"
    using mode_override_keeps(1)[of w1 request] m by simp
  then obtain e2 where e2: "primal_genesis w2 = Some e2" by blast
  have calls: "adapter_calls w2 = adapter_calls w"
    using provider_override_keeps(2)[of request w] mode_override_keeps(2)[of request w1] p m
    by simp
  have after: "snd (generate_traffic X request w) =
      emit (GenerateCall (current_provider e2) (mystical_mode e2)
              (target_url request) (behavior_type request) (intensity request)) w2"
    using generate_traffic_accepted(1)[OF assms(1) p m] call_generate_Some[OF e2] by simp
  have c1: "adapter_calls (snd (generate_traffic X request w)) = Suc (adapter_calls w)"
    by (simp add: after adapter_calls_emit is_generate_def calls)
  have c2: "\<exists>p m. last (trace (snd (generate_traffic X request w))) =
            GenerateCall p m (target_url request) (behavior_type request) (intensity request)"
    by (simp add: after trace_emit)
  have c3: "status_code (fst (generate_traffic X request w)) \<noteq> 400"
    by (rule generate_traffic_accepted(2)[OF assms(1) p m])
  have c4: "req_provider request = None \<and> req_mystical_mode request = None \<longrightarrow>
            primal_genesis (snd (generate_traffic X request w)) = primal_genesis w"
  proof
    assume none: "req_provider request = None \<and> req_mystical_mode request = None"
    then have "w1 = w" using p by (simp add: provider_override_def)
    moreover have "w2 = w1" using m none by (simp add: mode_override_def)
    ultimately show "primal_genesis (snd (generate_traffic X request w)) = primal_genesis w"
      by (simp add: after primal_genesis_emit)
  qed
  from c1 c2 c3 c4 show ?thesis by blast
qed

text \<open>The law at intensity \<open>-3\<close>, with a backend that fails.\<close>

theorem generate_traffic_intensity_unchecked_witness:
  "primal_genesis world0 = Some engine0 \<and>
   provider_acceptable (request0\<lparr>intensity := -3\<rparr>) \<and>
   mode_acceptable (request0\<lparr>intensity := -3\<rparr>) \<and>
   adapter_calls (snd (generate_traffic failing (request0\<lparr>intensity := -3\<rparr>) world0)) = 1 \<and>
   primal_genesis (snd (generate_traffic failing (request0\<lparr>intensity := -3\<rparr>) world0)) =
     primal_genesis world0"
proof -
  have h1: "primal_genesis world0 = Some engine0" by (simp add: world0_def)
  have h2: "provider_acceptable (request0\<lparr>intensity := -3\<rparr>)"
    by (simp add: provider_acceptable_def request0_def)
  have h3: "mode_acceptable (request0\<lparr>intensity := -3\<rparr>)"
    by (simp add: mode_acceptable_def request0_def)
  have h4: "adapter_calls world0 = 0" by (simp add: adapter_calls_def world0_def)
  have h5: "req_provider (request0\<lparr>intensity := -3\<rparr>) = None \<and>
            req_mystical_mode (request0\<lparr>intensity := -3\<rparr>) = None"
    by (simp add: request0_def)
  show ?thesis
    using generate_traffic_intensity_unchecked[OF h1 h2 h3, of failing] h1 h2 h3 h4 h5
    by simp
qed

text \<open>
  C1 as stated fails: with intensity 11 and the stubbed backend the response is a 200 and
  the backend has been invoked once.
\<close>

theorem intensity_out_of_range_counterexample:
  "\<not> (1 \<le> intensity (request0\<lparr>intensity := 11\<rparr>) \<and> intensity (request0\<lparr>intensity := 11\<rparr>) \<le> 10) \<and>
   status_code (fst (generate_traffic stub (request0\<lparr>intensity := 11\<rparr>) world0)) = 200 \<and>
   adapter_calls world0 = 0 \<and>
   adapter_calls (snd (generate_traffic stub (request0\<lparr>intensity := 11\<rparr>) world0)) = 1"
  by (simp add: eval_defs)


section \<open>Overrides of a generation request\<close>

subsection \<open>What GetStatus reports\<close>

lemma reported_provider_Some:
  "primal_genesis w = Some e \<Longrightarrow> reported_provider w = Some (current_provider e)"
  by (simp add: reported_provider_def get_sovereign_status_def get_sovereign_status_try_def
      except_Exception_def PrimalGenesisModel_get_sovereign_status_def)

lemma reported_mode_Some:
  "primal_genesis w = Some e \<Longrightarrow> reported_mode w = Some (mystical_mode e)"
  by (simp add: reported_mode_def get_sovereign_status_def get_sovereign_status_try_def
      except_Exception_def PrimalGenesisModel_get_sovereign_status_def)

lemma reported_emit:
  "reported_provider (emit ev w) = reported_provider w"
  "reported_mode (emit ev w) = reported_mode w"
  by (simp_all add: reported_provider_def reported_mode_def get_sovereign_status_def
      get_sovereign_status_try_def except_Exception_def emit_def split: option.splits)

lemma reported_mode_call_switch_provider:
  "reported_mode (call_switch_provider p w) = reported_mode w"
  by (cases "primal_genesis w")
     (simp_all add: reported_mode_def get_sovereign_status_def get_sovereign_status_try_def
        except_Exception_def call_switch_provider_def emit_def not_initialized_def
        PrimalGenesisModel_switch_provider_def PrimalGenesisModel_get_sovereign_status_def)

lemma reported_provider_call_switch_provider:
  "primal_genesis w \<noteq> None \<Longrightarrow>
   reported_provider (call_switch_provider p w) = Some (provider_value p)"
  by (cases "primal_genesis w")
     (simp_all add: reported_provider_def get_sovereign_status_def get_sovereign_status_try_def
        except_Exception_def call_switch_provider_def emit_def
        PrimalGenesisModel_switch_provider_def PrimalGenesisModel_get_sovereign_status_def)

lemma reported_provider_call_switch_mystical_mode:
  "reported_provider (call_switch_mystical_mode m w) = reported_provider w"
  by (cases "primal_genesis w")
     (simp_all add: reported_provider_def get_sovereign_status_def get_sovereign_status_try_def
        except_Exception_def call_switch_mystical_mode_def emit_def not_initialized_def
        PrimalGenesisModel_switch_mystical_mode_def PrimalGenesisModel_get_sovereign_status_def)

lemma reported_provider_mode_override:
  "reported_provider (snd (mode_override r w)) = reported_provider w"
  by (cases r w rule: mode_override_cases)
     (simp_all add: reported_provider_call_switch_mystical_mode)

lemma reported_provider_call_generate:
  "reported_provider (snd (call_generate X r w)) = reported_provider w"
  by (cases "primal_genesis w") (simp_all add: call_generate_def reported_emit)

text \<open>A rejected provider override ends the handler with the state untouched.\<close>

lemma generate_traffic_provider_rejected:
  assumes "primal_genesis w = Some e" "req_provider r = Some s" "s \<noteq> []"
    "s \<notin> set provider_values"
  shows "snd (generate_traffic X r w) = w"
    and "fst (generate_traffic X r w) =
           Inl (HTTPException 500 (StrOf (HTTPException 400 (Text (''Invalid provider: '' @ s)))))"
  using assms PrimalGenesisProvider_of_invalid[OF assms(4)]
  by (simp_all add: generate_traffic_def generate_traffic_try_def except_Exception_def
      provider_override_def)

text \<open>A rejected mode override ends the handler after the provider override has run.\<close>

lemma generate_traffic_mode_rejected:
  assumes "primal_genesis w = Some e" "provider_acceptable r"
    "req_mystical_mode r = Some s" "s \<noteq> []" "s \<notin> set mode_values"
  shows "snd (generate_traffic X r w) = snd (provider_override r w)"
proof -
  obtain w1 where p: "provider_override r w = (Inr (), w1)"
    using provider_override_accept[OF assms(2), of w] by (cases "provider_override r w") auto
  have "mode_override r w1 =
          (Inl (HTTPException 400 (Text (''Invalid mystical mode: '' @ s))), w1)"
    using assms(3,4) MysticalMode_of_invalid[OF assms(5)] by (simp add: mode_override_def)
  then show ?thesis
    using assms(1) p
    by (simp add: generate_traffic_def generate_traffic_try_def except_Exception_def)
qed


subsection \<open>The overrides that pass\<close>

lemma provider_switches_member:
  "PrimalGenesisProvider_of s = Inr p \<Longrightarrow> req_provider r = Some s \<Longrightarrow>
   provider_switches r = [SwitchProviderCall p]"
proof -
  assume a: "PrimalGenesisProvider_of s = Inr p" "req_provider r = Some s"
  have "filter (\<lambda>q. provider_value q = provider_value p) all_providers = [p]"
    by (cases p) (simp_all add: all_providers_def)
  then show ?thesis
    using a(2) PrimalGenesisProvider_of_Inr[OF a(1)] by (simp add: provider_switches_def)
qed

lemma provider_switches_none:
  "req_provider r = None \<or> req_provider r = Some s \<and> s \<notin> set provider_values \<Longrightarrow>
   provider_switches r = []"
  by (auto simp: provider_switches_def provider_values_def filter_empty_conv)

lemma mode_switches_member:
  "MysticalMode_of s = Inr m \<Longrightarrow> req_mystical_mode r = Some s \<Longrightarrow>
   mode_switches r = [SwitchModeCall m]"
proof -
  assume a: "MysticalMode_of s = Inr m" "req_mystical_mode r = Some s"
  have "filter (\<lambda>q. mode_value q = mode_value m) all_modes = [m]"
    by (cases m) (simp_all add: all_modes_def)
  then show ?thesis
    using a(2) MysticalMode_of_Inr[OF a(1)] by (simp add: mode_switches_def)
qed

lemma mode_switches_none:
  "req_mystical_mode r = None \<or> req_mystical_mode r = Some s \<and> s \<notin> set mode_values \<Longrightarrow>
   mode_switches r = []"
  by (auto simp: mode_switches_def mode_values_def filter_empty_conv)

lemma empty_not_provider_value: "[] \<notin> set provider_values"
  by (simp add: provider_values_def all_providers_def)

lemma empty_not_mode_value: "[] \<notin> set mode_values"
  by (simp add: mode_values_def all_modes_def)

lemma provider_override_acceptable:
  assumes "primal_genesis w = Some e" "provider_acceptable r"
  shows "provider_override r w =
           (Inr (), w\<lparr>primal_genesis := Some (e\<lparr>current_provider := committed_provider r e\<rparr>),
                      trace := trace w @ provider_switches r\<rparr>)"
proof (cases r w rule: provider_override_cases)
  case skip
  then have "committed_provider r e = current_provider e" "provider_switches r = []"
    using provider_switches_none[of r "[]"] empty_not_provider_value
    by (auto simp: committed_provider_def)
  then show ?thesis using skip(2) assms(1) by simp
next
  case (switch s p)
  have v: "provider_value p = s" by (rule PrimalGenesisProvider_of_Inr[OF switch(3)])
  then have "committed_provider r e = s"
    using switch(1) provider_value_in[of p] by (simp add: committed_provider_def)
  then show ?thesis
    using switch(4) assms(1) v provider_switches_member[OF switch(3,1)]
    by (simp add: call_switch_provider_def emit_def PrimalGenesisModel_switch_provider_def)
next
  case (reject s)
  then show ?thesis using assms(2) by (simp add: provider_acceptable_def)
qed

lemma mode_override_acceptable:
  assumes "primal_genesis w = Some e" "mode_acceptable r"
  shows "mode_override r w =
           (Inr (), w\<lparr>primal_genesis := Some (e\<lparr>mystical_mode := committed_mode r e\<rparr>),
                      trace := trace w @ mode_switches r\<rparr>)"
proof (cases r w rule: mode_override_cases)
  case skip
  then have "committed_mode r e = mystical_mode e" "mode_switches r = []"
    using mode_switches_none[of r "[]"] empty_not_mode_value
    by (auto simp: committed_mode_def)
  then show ?thesis using skip(2) assms(1) by simp
next
  case (switch s m)
  have v: "mode_value m = s" by (rule MysticalMode_of_Inr[OF switch(3)])
  then have "committed_mode r e = s"
    using switch(1) mode_value_in[of m] by (simp add: committed_mode_def)
  then show ?thesis
    using switch(4) assms(1) v mode_switches_member[OF switch(3,1)]
    by (simp add: call_switch_mystical_mode_def emit_def
        PrimalGenesisModel_switch_mystical_mode_def)
next
  case (reject s)
  then show ?thesis using assms(2) by (simp add: mode_acceptable_def)
qed

lemma committed_mode_provider_update:
  "committed_mode r (e\<lparr>current_provider := v\<rparr>) = committed_mode r e"
  by (simp add: committed_mode_def split: option.splits)

text \<open>
  C2 (as the code has it). \<open>generate_traffic\<close> takes an override that is absent or the
  empty string as not given, and handles the two overrides one after the other, each
  checked and, when it is a value of its enumeration, committed at once: first the
  provider, then the mode. The backend is invoked after both, exactly once, under the
  provider and the mode then committed, and the intensity is not checked. On an
  initialised engine:
  \<^item> a request whose provider override is not empty and not in the enumeration leaves the
    whole state as it was, so the Registry is unchanged and the backend is not invoked;
  \<^item> a request whose provider override passes and whose mode override is not empty and
    not in the enumeration leaves exactly this: the provider override, if valid, is
    committed, with its switch as the only effect; the mode is unchanged and the backend
    is not invoked;
  \<^item> a request whose overrides both pass leaves exactly this: the engine holds the
    committed provider and mode, and the effects are the provider switch (if any), the
    mode switch (if any), and then one invocation of the backend under both.
\<close>

theorem generate_traffic_override_order:
  assumes "primal_genesis w = Some e"
  shows "(\<forall>s. req_provider request = Some s \<and> s \<noteq> [] \<and> s \<notin> set provider_values \<longrightarrow>
            snd (generate_traffic X request w) = w) \<and>
         (\<forall>s. provider_acceptable request \<and>
              req_mystical_mode request = Some s \<and> s \<noteq> [] \<and> s \<notin> set mode_values \<longrightarrow>
            snd (generate_traffic X request w) =
              w\<lparr>primal_genesis :=
                   Some (e\<lparr>current_provider := committed_provider request e\<rparr>),
                 trace := trace w @ provider_switches request\<rparr>) \<and>
         (provider_acceptable request \<and> mode_acceptable request \<longrightarrow>
            snd (generate_traffic X request w) =
              w\<lparr>primal_genesis :=
                   Some (e\<lparr>current_provider := committed_provider request e,
                           mystical_mode := committed_mode request e\<rparr>),
                 trace := trace w @ provider_switches request @ mode_switches request @
                   [GenerateCall (committed_provider request e) (committed_mode request e)
                      (target_url request) (behavior_type request) (intensity request)]\<rparr>)"
proof (intro conjI allI impI)
  fix s
  assume "req_provider request = Some s \<and> s \<noteq> [] \<and> s \<notin> set provider_values"
  then show "snd (generate_traffic X request w) = w"
    using generate_traffic_provider_rejected(1)[OF assms] by blast
next
  fix s
  assume a: "provider_acceptable request \<and>
     req_mystical_mode request = Some s \<and> s \<noteq> [] \<and> s \<notin> set mode_values"
  then have "snd (generate_traffic X request w) = snd (provider_override request w)"
    using generate_traffic_mode_rejected[OF assms] by blast
  then show "snd (generate_traffic X request w) =
      w\<lparr>primal_genesis := Some (e\<lparr>current_provider := committed_provider request e\<rparr>),
        trace := trace w @ provider_switches request\<rparr>"
    using provider_override_acceptable[OF assms, of request] a by simp
next
  assume a: "provider_acceptable request \<and> mode_acceptable request"
  let ?e1 = "e\<lparr>current_provider := committed_provider request e\<rparr>"
  let ?w1 = "w\<lparr>primal_genesis := Some ?e1, trace := trace w @ provider_switches request\<rparr>"
  let ?e2 = "?e1\<lparr>mystical_mode := committed_mode request e\<rparr>"
  let ?w2 = "?w1\<lparr>primal_genesis := Some ?e2, trace := trace ?w1 @ mode_switches request\<rparr>"
  have p: "provider_override request w = (Inr (), ?w1)"
    using provider_override_acceptable[OF assms, of request] a by simp
  have e1: "primal_genesis ?w1 = Some ?e1" by simp
  have m: "mode_override request ?w1 = (Inr (), ?w2)"
    using mode_override_acceptable[OF e1, of request] a
    by (simp add: committed_mode_provider_update)
  have e2: "primal_genesis ?w2 = Some ?e2" by simp
  have "snd (generate_traffic X request w) =
      emit (GenerateCall (current_provider ?e2) (mystical_mode ?e2)
              (target_url request) (behavior_type request) (intensity request)) ?w2"
    using generate_traffic_accepted(1)[OF assms p m] call_generate_Some[OF e2] by simp
  then show "snd (generate_traffic X request w) =
      w\<lparr>primal_genesis :=
           Some (e\<lparr>current_provider := committed_provider request e,
                   mystical_mode := committed_mode request e\<rparr>),
         trace := trace w @ provider_switches request @ mode_switches request @
           [GenerateCall (committed_provider request e) (committed_mode request e)
              (target_url request) (behavior_type request) (intensity request)]\<rparr>"
    by (simp add: emit_def)
qed

lemmas request_defs = request_c2_def request_bad_provider_def request_empty_provider_def

text \<open>The law at three requests: provider \<open>bogus\<close>; provider \<open>openai\<close> with mode
  \<open>bogus\<close>; an empty provider with mode \<open>ethereal\<close>.\<close>

theorem generate_traffic_override_order_witness:
  "primal_genesis world0 = Some engine0 \<and>
   (req_provider request_bad_provider = Some ''bogus'' \<and> ''bogus'' \<noteq> [] \<and>
    ''bogus'' \<notin> set provider_values \<and>
    snd (generate_traffic stub request_bad_provider world0) = world0) \<and>
   (provider_acceptable request_c2 \<and> req_provider request_c2 = Some ''openai'' \<and>
    req_mystical_mode request_c2 = Some ''bogus'' \<and> ''bogus'' \<notin> set mode_values \<and>
    snd (generate_traffic stub request_c2 world0) =
      world0\<lparr>primal_genesis := Some (engine0\<lparr>current_provider := ''openai''\<rparr>),
             trace := [SwitchProviderCall OPENAI]\<rparr>) \<and>
   (provider_acceptable request_empty_provider \<and> mode_acceptable request_empty_provider \<and>
    req_provider request_empty_provider = Some [] \<and>
    req_mystical_mode request_empty_provider = Some ''ethereal'' \<and>
    snd (generate_traffic stub request_empty_provider world0) =
      world0\<lparr>primal_genesis := Some (engine0\<lparr>mystical_mode := ''ethereal''\<rparr>),
             trace := [SwitchModeCall ETHEREAL,
                       GenerateCall ''mistral'' ''ethereal'' ''https://example.com''
                         ''organic'' 5]\<rparr>)"
proof -
  have h1: "primal_genesis world0 = Some engine0" by (simp add: world0_def)
  have a1: "req_provider request_bad_provider = Some ''bogus''" "''bogus'' \<noteq> []"
    "''bogus'' \<notin> set provider_values"
    by (simp_all add: request_defs eval_defs)
  have a2: "provider_acceptable request_c2" "req_provider request_c2 = Some ''openai''"
    "req_mystical_mode request_c2 = Some ''bogus''" "''bogus'' \<notin> set mode_values"
    by (simp_all add: request_defs eval_defs)
  have a3: "provider_acceptable request_empty_provider"
    "mode_acceptable request_empty_provider"
    "req_provider request_empty_provider = Some []"
    "req_mystical_mode request_empty_provider = Some ''ethereal''"
    by (simp_all add: request_defs eval_defs)
  have v2: "committed_provider request_c2 engine0 = ''openai''"
    "provider_switches request_c2 = [SwitchProviderCall OPENAI]"
    by (simp_all add: request_defs eval_defs)
  have v3: "committed_provider request_empty_provider engine0 = ''mistral''"
    "committed_mode request_empty_provider engine0 = ''ethereal''"
    "provider_switches request_empty_provider = []"
    "mode_switches request_empty_provider = [SwitchModeCall ETHEREAL]"
    by (simp_all add: request_defs eval_defs)
  have t: "trace world0 = []" "current_provider engine0 = ''mistral''"
    "target_url request_empty_provider = ''https://example.com''"
    "behavior_type request_empty_provider = ''organic''"
    "intensity request_empty_provider = 5"
    by (simp_all add: request_defs eval_defs)
  have e: "engine0\<lparr>current_provider := ''mistral'', mystical_mode := ''ethereal''\<rparr> =
           engine0\<lparr>mystical_mode := ''ethereal''\<rparr>"
    by (simp add: engine0_def)
  show ?thesis
    using generate_traffic_override_order[OF h1, of request_bad_provider stub]
      generate_traffic_override_order[OF h1, of request_c2 stub]
      generate_traffic_override_order[OF h1, of request_empty_provider stub]
      h1 a1 a2 a3
    by (simp add: v2 v3 t e)
qed

text \<open>
  C2 as stated fails: a valid provider override with an invalid mode override is rejected
  with the Registry changed, from \<open>mistral\<close> to \<open>openai\<close>.
\<close>

theorem override_applied_before_mode_validation_counterexample:
  "req_provider request_c2 = Some ''openai'' \<and> ''openai'' \<in> set provider_values \<and>
   req_mystical_mode request_c2 = Some ''bogus'' \<and> ''bogus'' \<notin> set mode_values \<and>
   status_code (fst (generate_traffic stub request_c2 world0)) = 500 \<and>
   reported_provider world0 = Some ''mistral'' \<and>
   reported_provider (snd (generate_traffic stub request_c2 world0)) = Some ''openai''"
  by (simp add: request_c2_def eval_defs)

lemma trace_provider_override_switch:
  "PrimalGenesisProvider_of s = Inr p \<Longrightarrow> req_provider r = Some s \<Longrightarrow>
   provider_override r w = (Inr (), call_switch_provider p w)"
proof -
  assume a: "PrimalGenesisProvider_of s = Inr p" "req_provider r = Some s"
  have "s \<noteq> []" using PrimalGenesisProvider_of_Inr[OF a(1)] by (cases p) auto
  with a show ?thesis by (simp add: provider_override_def)
qed

text \<open>What the handler adds to the trace once the provider is \<open>p\<close>: every invocation
  of the backend it records runs under \<open>p\<close>.\<close>

lemma mode_override_trace:
  "\<exists>evs. trace (snd (mode_override r w)) = trace w @ evs \<and>
         (\<forall>q m t b i. GenerateCall q m t b i \<notin> set evs)"
  by (cases r w rule: mode_override_cases) (auto simp: call_switch_mystical_mode_simps)

lemma mode_override_current_provider:
  "primal_genesis w = Some e \<Longrightarrow>
   \<exists>e'. primal_genesis (snd (mode_override r w)) = Some e' \<and>
         current_provider e' = current_provider e"
  by (cases r w rule: mode_override_cases)
     (auto simp: call_switch_mystical_mode_simps PrimalGenesisModel_switch_mystical_mode_def)

lemma generate_traffic_try_tail:
  assumes "primal_genesis w = Some e" "provider_override r w = (Inr (), w1)"
    "primal_genesis w1 = Some e1"
  shows "\<exists>evs. trace (snd (generate_traffic X r w)) = trace w1 @ evs \<and>
               (\<forall>q m t b i. GenerateCall q m t b i \<in> set evs \<longrightarrow> q = current_provider e1)"
proof (cases "fst (mode_override r w1)")
  case (Inl x)
  then have "snd (generate_traffic X r w) = snd (mode_override r w1)"
    using assms(1,2)
    by (cases "mode_override r w1")
       (simp add: generate_traffic_def generate_traffic_try_def except_Exception_def)
  then show ?thesis using mode_override_trace[of r w1] by auto
next
  case (Inr u)
  obtain w2 where m: "mode_override r w1 = (Inr (), w2)"
    using Inr by (cases "mode_override r w1") auto
  obtain e2 where e2: "primal_genesis w2 = Some e2" "current_provider e2 = current_provider e1"
    using mode_override_current_provider[OF assms(3), of r] m by auto
  obtain evs where evs: "trace w2 = trace w1 @ evs"
      "\<forall>q m t b i. GenerateCall q m t b i \<notin> set evs"
    using mode_override_trace[of r w1] m by auto
  have "snd (generate_traffic X r w) =
          emit (GenerateCall (current_provider e2) (mystical_mode e2)
                  (target_url r) (behavior_type r) (intensity r)) w2"
    using generate_traffic_accepted(1)[OF assms(1,2) m] call_generate_Some[OF e2(1)] by simp
  then have "trace (snd (generate_traffic X r w)) =
      trace w1 @ (evs @ [GenerateCall (current_provider e1) (mystical_mode e2)
                  (target_url r) (behavior_type r) (intensity r)])"
    by (simp add: trace_emit evs(1) e2(2))
  moreover have "\<forall>q m t b i. GenerateCall q m t b i \<in>
        set (evs @ [GenerateCall (current_provider e1) (mystical_mode e2)
                  (target_url r) (behavior_type r) (intensity r)]) \<longrightarrow> q = current_provider e1"
    using evs(2) by auto
  ultimately show ?thesis by blast
qed

lemma reported_provider_generate_traffic_tail:
  assumes "primal_genesis w = Some e" "provider_override r w = (Inr (), w1)"
  shows "reported_provider (snd (generate_traffic X r w)) = reported_provider w1"
proof (cases "fst (mode_override r w1)")
  case (Inl x)
  then have "snd (generate_traffic X r w) = snd (mode_override r w1)"
    using assms(1,2)
    by (cases "mode_override r w1")
       (simp add: generate_traffic_def generate_traffic_try_def except_Exception_def)
  then show ?thesis by (simp add: reported_provider_mode_override)
next
  case (Inr u)
  obtain w2 where m: "mode_override r w1 = (Inr (), w2)"
    using Inr by (cases "mode_override r w1") auto
  have "reported_provider w2 = reported_provider w1"
    using reported_provider_mode_override[of r w1] m by simp
  then show ?thesis
    using generate_traffic_accepted(1)[OF assms(1,2) m]
    by (simp add: reported_provider_call_generate)
qed

text \<open>
  C4, the override commit law. For every generation request with a valid provider
  override \<open>P\<close> on an initialised engine, and for every behaviour of the generation
  backend and of \<open>json.loads\<close>, success or failure: afterwards GetStatus reports the
  provider \<open>P\<close>; the switch to \<open>P\<close> is the first effect of the handler, so it precedes
  any invocation of the backend; and every such invocation runs under \<open>P\<close>. Nothing
  is rolled back. This holds whether or not \<open>P\<close> differs from the provider before.
\<close>

theorem override_commit_law:
  assumes "primal_genesis w = Some e" and "req_provider request = Some s"
    and "PrimalGenesisProvider_of s = Inr p"
  shows "reported_provider (snd (generate_traffic X request w)) = Some s \<and>
         (\<exists>evs. trace (snd (generate_traffic X request w)) =
                  trace w @ SwitchProviderCall p # evs \<and>
                (\<forall>q m t b i. GenerateCall q m t b i \<in> set evs \<longrightarrow> q = provider_value p))"
proof -
  have po: "provider_override request w = (Inr (), call_switch_provider p w)"
    by (rule trace_provider_override_switch[OF assms(3,2)])
  have e1: "primal_genesis (call_switch_provider p w) =
              Some (PrimalGenesisModel_switch_provider (provider_value p) e)"
    using assms(1) by (simp add: call_switch_provider_simps)
  have "reported_provider (snd (generate_traffic X request w)) =
          reported_provider (call_switch_provider p w)"
    by (rule reported_provider_generate_traffic_tail[OF assms(1) po])
  then have c1: "reported_provider (snd (generate_traffic X request w)) = Some s"
    using assms(1) PrimalGenesisProvider_of_Inr[OF assms(3)]
    by (simp add: reported_provider_call_switch_provider)
  obtain evs where evs:
      "trace (snd (generate_traffic X request w)) = trace (call_switch_provider p w) @ evs"
      "\<forall>q m t b i. GenerateCall q m t b i \<in> set evs \<longrightarrow>
         q = current_provider (PrimalGenesisModel_switch_provider (provider_value p) e)"
    using generate_traffic_try_tail[OF assms(1) po e1] by blast
  have "trace (snd (generate_traffic X request w)) = trace w @ SwitchProviderCall p # evs"
    by (simp add: evs(1) call_switch_provider_simps)
  moreover have "\<forall>q m t b i. GenerateCall q m t b i \<in> set evs \<longrightarrow> q = provider_value p"
    using evs(2) by (simp add: PrimalGenesisModel_switch_provider_def)
  ultimately show ?thesis using c1 by blast
qed

text \<open>The law at the override \<open>openai\<close> on an engine at \<open>mistral\<close>, with a backend that
  fails and with one that succeeds.\<close>

theorem override_commit_law_witness:
  "primal_genesis world0 = Some engine0 \<and> current_provider engine0 \<noteq> provider_value OPENAI \<and>
   req_provider request_c4 = Some ''openai'' \<and>
   PrimalGenesisProvider_of ''openai'' = Inr OPENAI \<and>
   status_code (fst (generate_traffic failing request_c4 world0)) = 500 \<and>
   reported_provider (snd (generate_traffic failing request_c4 world0)) = Some ''openai'' \<and>
   status_code (fst (generate_traffic stub request_c4 world0)) = 200 \<and>
   reported_provider (snd (generate_traffic stub request_c4 world0)) = Some ''openai'' \<and>
   trace (snd (generate_traffic stub request_c4 world0)) =
     [SwitchProviderCall OPENAI,
      GenerateCall ''openai'' ''sovereign'' ''https://example.com'' ''organic'' 5]"
proof -
  have h1: "primal_genesis world0 = Some engine0" by (simp add: world0_def)
  have h2: "req_provider request_c4 = Some ''openai''" by (simp add: request_c4_def)
  have h3: "PrimalGenesisProvider_of ''openai'' = Inr OPENAI" by (simp add: eval_defs)
  have h4: "current_provider engine0 \<noteq> provider_value OPENAI" by (simp add: engine0_def)
  have h5: "status_code (fst (generate_traffic failing request_c4 world0)) = 500"
    "status_code (fst (generate_traffic stub request_c4 world0)) = 200"
    "trace (snd (generate_traffic stub request_c4 world0)) =
       [SwitchProviderCall OPENAI,
        GenerateCall ''openai'' ''sovereign'' ''https://example.com'' ''organic'' 5]"
    by (simp_all add: request_c4_def eval_defs)
  show ?thesis
    using override_commit_law[OF h1 h2 h3, of failing] override_commit_law[OF h1 h2 h3, of stub]
      h1 h2 h3 h4 h5
    by blast
qed


section \<open>The switch handlers on an identifier outside the enumeration\<close>

lemma switch_provider_invalid:
  assumes "primal_genesis w = Some e" "s \<notin> set provider_values" "cfg_provider config = s"
  shows "switch_provider config w = (Inl (HTTPException 500 (StrOf (ValueError s))), w)"
  using assms(1,3) PrimalGenesisProvider_of_invalid[OF assms(2)]
  by (simp add: switch_provider_def switch_provider_try_def set_api_key_def
      except_Exception_def)

lemma switch_mystical_mode_invalid:
  assumes "primal_genesis w = Some e" "s \<notin> set mode_values" "mode request = s"
  shows "switch_mystical_mode request w = (Inl (HTTPException 500 (StrOf (ValueError s))), w)"
  using assms(1,3) MysticalMode_of_invalid[OF assms(2)]
  by (simp add: switch_mystical_mode_def switch_mystical_mode_try_def except_Exception_def)

text \<open>
  C3 at a concrete input. \<open>switch_provider\<close> with the provider \<open>bogus\<close> and
  \<open>switch_mystical_mode\<close> with the mode \<open>bogus\<close>, neither in its enumeration, leave
  the state as it was, which C3 says; but the \<open>ValueError\<close> of the enumeration reaches
  \<open>except Exception\<close>, and the response has status 500 where C3 says 400. The same
  clause turns the 400 that \<open>generate_traffic\<close> raises for the same provider into a 500.
\<close>

theorem switch_invalid_identifier_is_500:
  "''bogus'' \<notin> set provider_values \<and> ''bogus'' \<notin> set mode_values \<and>
   switch_provider \<lparr>cfg_provider = ''bogus'', api_key = ''''\<rparr> world0 =
     (Inl (HTTPException 500 (StrOf (ValueError ''bogus''))), world0) \<and>
   status_code (fst (switch_provider \<lparr>cfg_provider = ''bogus'', api_key = ''''\<rparr> world0)) = 500 \<and>
   switch_mystical_mode \<lparr>mode = ''bogus''\<rparr> world0 =
     (Inl (HTTPException 500 (StrOf (ValueError ''bogus''))), world0) \<and>
   status_code (fst (switch_mystical_mode \<lparr>mode = ''bogus''\<rparr> world0)) = 500 \<and>
   fst (generate_traffic stub (request0\<lparr>req_provider := Some ''bogus''\<rparr>) world0) =
     Inl (HTTPException 500 (StrOf (HTTPException 400 (Text ''Invalid provider: bogus''))))"
  by (simp add: eval_defs)


section \<open>The Registry invariant\<close>

subsection \<open>The ways SwitchProvider can go\<close>

lemma switch_provider_cases:
  obtains (unchanged) "snd (switch_provider c w) = w" "\<exists>x. fst (switch_provider c w) = Inl x"
  | (switched) e p where "primal_genesis w = Some e"
      "PrimalGenesisProvider_of (cfg_provider c) = Inr p"
      "api_key c = []"
      "snd (switch_provider c w) = call_switch_provider p w"
  | (installed) e p d name where "primal_genesis w = Some e"
      "PrimalGenesisProvider_of (cfg_provider c) = Inr p"
      "api_key c \<noteq> []"
      "map_of (provider_configs e) p = Some d" "map_of d ''api_key_env'' = Some name"
      "environ_setitem name (api_key c) w =
         Inr (emit (EnvironSet name (api_key c)) (w\<lparr>environ := (environ w)(name \<mapsto> api_key c)\<rparr>))"
      "snd (switch_provider c w) =
         call_switch_provider p
           (emit (EnvironSet name (api_key c)) (w\<lparr>environ := (environ w)(name \<mapsto> api_key c)\<rparr>))"
proof (cases "primal_genesis w")
  case None
  then show ?thesis using unchanged
    by (simp add: switch_provider_def switch_provider_try_def except_Exception_def)
next
  case (Some e)
  show ?thesis
  proof (cases "PrimalGenesisProvider_of (cfg_provider c)")
    case (Inl x)
    then show ?thesis using unchanged Some
      by (simp add: switch_provider_def switch_provider_try_def except_Exception_def
          set_api_key_def)
  next
    case (Inr p)
    show ?thesis
    proof (cases "api_key c = []")
      case True
      then show ?thesis using switched[OF Some Inr] Some Inr
        by (simp add: switch_provider_def switch_provider_try_def except_Exception_def Let_def)
    next
      case False
      show ?thesis
      proof (cases "set_api_key c e w")
        case (Inl x)
        then show ?thesis using unchanged Some False
          by (simp add: switch_provider_def switch_provider_try_def except_Exception_def)
      next
        case (Inr w1)
        then obtain d name where dn: "map_of (provider_configs e) p = Some d"
            "map_of d ''api_key_env'' = Some name"
            "environ_setitem name (api_key c) w = Inr w1"
          using \<open>PrimalGenesisProvider_of (cfg_provider c) = Inr p\<close>
          by (auto simp: set_api_key_def split: option.splits)
        then have w1: "w1 = emit (EnvironSet name (api_key c))
                          (w\<lparr>environ := (environ w)(name \<mapsto> api_key c)\<rparr>)"
          by (auto simp: environ_setitem_def split: if_splits)
        have "snd (switch_provider c w) = call_switch_provider p w1"
          using Some False Inr \<open>PrimalGenesisProvider_of (cfg_provider c) = Inr p\<close>
          by (simp add: switch_provider_def switch_provider_try_def except_Exception_def Let_def)
        then show ?thesis
          using installed[OF Some \<open>PrimalGenesisProvider_of (cfg_provider c) = Inr p\<close> False dn(1,2)]
            dn(3) w1 by simp
      qed
    qed
  qed
qed



subsection \<open>Each handler keeps the invariant\<close>

lemma registry_inv_emit: "registry_inv (emit ev w) = registry_inv w"
  by (simp add: registry_inv_def emit_def)

lemma registry_inv_call_switch_provider:
  "registry_inv w \<Longrightarrow> registry_inv (call_switch_provider p w)"
  by (auto simp: registry_inv_def call_switch_provider_def emit_def
      PrimalGenesisModel_switch_provider_def provider_value_in split: option.splits)

lemma registry_inv_call_switch_mystical_mode:
  "registry_inv w \<Longrightarrow> registry_inv (call_switch_mystical_mode m w)"
  by (auto simp: registry_inv_def call_switch_mystical_mode_def emit_def
      PrimalGenesisModel_switch_mystical_mode_def mode_value_in split: option.splits)

lemma registry_inv_provider_override:
  "registry_inv w \<Longrightarrow> registry_inv (snd (provider_override r w))"
  by (cases r w rule: provider_override_cases)
     (simp_all add: registry_inv_call_switch_provider)

lemma registry_inv_mode_override:
  "registry_inv w \<Longrightarrow> registry_inv (snd (mode_override r w))"
  by (cases r w rule: mode_override_cases)
     (simp_all add: registry_inv_call_switch_mystical_mode)

lemma registry_inv_call_generate:
  "registry_inv w \<Longrightarrow> registry_inv (snd (call_generate X r w))"
  by (cases "primal_genesis w") (simp_all add: call_generate_def registry_inv_emit)

text \<open>Where \<open>generate_traffic\<close> can stop.\<close>

lemma generate_traffic_stops:
  "snd (generate_traffic X r w) = w \<or>
   snd (generate_traffic X r w) = snd (provider_override r w) \<or>
   snd (generate_traffic X r w) = snd (mode_override r (snd (provider_override r w))) \<or>
   snd (generate_traffic X r w) =
     snd (call_generate X r (snd (mode_override r (snd (provider_override r w)))))"
  by (simp add: generate_traffic_def generate_traffic_try_def snd_except_Exception
      split: option.splits sum.splits prod.splits)

lemma registry_inv_generate_traffic:
  assumes "registry_inv w"
  shows "registry_inv (snd (generate_traffic X r w))"
proof -
  have 1: "registry_inv (snd (provider_override r w))"
    by (rule registry_inv_provider_override[OF assms])
  have 2: "registry_inv (snd (mode_override r (snd (provider_override r w))))"
    by (rule registry_inv_mode_override[OF 1])
  have 3: "registry_inv
             (snd (call_generate X r (snd (mode_override r (snd (provider_override r w))))))"
    by (rule registry_inv_call_generate[OF 2])
  show ?thesis using generate_traffic_stops[of X r w] assms 1 2 3 by auto
qed

lemma registry_inv_switch_provider:
  assumes "registry_inv w"
  shows "registry_inv (snd (switch_provider c w))"
proof (cases c w rule: switch_provider_cases)
  case unchanged
  then show ?thesis using assms by simp
next
  case (switched e p)
  then show ?thesis using assms by (simp add: registry_inv_call_switch_provider)
next
  case (installed e p d name)
  have "registry_inv (emit (EnvironSet name (api_key c))
                        (w\<lparr>environ := (environ w)(name \<mapsto> api_key c)\<rparr>))"
    using assms by (simp add: registry_inv_def emit_def)
  then show ?thesis using installed(7) by (simp add: registry_inv_call_switch_provider)
qed

lemma registry_inv_switch_mystical_mode:
  assumes "registry_inv w"
  shows "registry_inv (snd (switch_mystical_mode r w))"
proof -
  have "snd (switch_mystical_mode r w) = w \<or>
        (\<exists>m. snd (switch_mystical_mode r w) = call_switch_mystical_mode m w)"
    by (auto simp: switch_mystical_mode_def switch_mystical_mode_try_def snd_except_Exception
        Let_def split: option.splits sum.splits)
  then show ?thesis using assms registry_inv_call_switch_mystical_mode by auto
qed

lemma get_sovereign_status_pure: "snd (get_sovereign_status w) = w"
  by (simp add: get_sovereign_status_def get_sovereign_status_try_def snd_except_Exception
      split: option.splits)

lemma registry_inv_run_operation:
  "registry_inv w \<Longrightarrow> registry_inv (snd (run_operation X op w))"
  by (cases op)
     (simp_all add: registry_inv_generate_traffic registry_inv_switch_provider
        registry_inv_switch_mystical_mode get_sovereign_status_pure)

lemma registry_inv_run_operations:
  "registry_inv w \<Longrightarrow> registry_inv (run_operations X ops w)"
proof (induction ops arbitrary: w)
  case Nil
  then show ?case by simp
next
  case (Cons op ops)
  have "registry_inv (snd (run_operation X op w))"
    by (rule registry_inv_run_operation[OF Cons.prems])
  then show ?case using Cons.IH by simp
qed

text \<open>
  C5, the Registry invariant: the engine is in place, and the provider and the mode it
  holds are values of the two closed enumerations. The engine's attributes are strings,
  so this is not a matter of types. A \<open>startup_event\<close> that succeeds, with a constructor
  that installs the defaults it is given, establishes the invariant; and each of
  RequestGeneration, SwitchProvider, SwitchMode and GetStatus, with any arguments and
  any behaviour of the backend, preserves it, as does every sequence of them: no
  operation installs a value outside the enumerations or removes the engine.
\<close>

theorem registry_invariant:
  "(installs_defaults mk \<and> startup_event mk w0 = Inr w \<longrightarrow> registry_inv w) \<and>
   (registry_inv w \<longrightarrow>
      registry_inv (snd (run_operation X op w)) \<and> registry_inv (run_operations X ops w))"
proof (intro conjI impI)
  assume a: "installs_defaults mk \<and> startup_event mk w0 = Inr w"
  then obtain e where e: "mk MISTRAL SOVEREIGN True True 42 144 = Inr e"
      "w = w0\<lparr>primal_genesis := Some e\<rparr>"
    by (auto simp: startup_event_def split: sum.splits)
  then have "current_provider e = provider_value MISTRAL \<and>
             mystical_mode e = mode_value SOVEREIGN"
    using a by (simp add: installs_defaults_def)
  then show "registry_inv w"
    using e(2) provider_value_in[of MISTRAL] mode_value_in[of SOVEREIGN]
    by (simp add: registry_inv_def)
next
  assume "registry_inv w"
  then show "registry_inv (snd (run_operation X op w))"
    by (rule registry_inv_run_operation)
next
  assume "registry_inv w"
  then show "registry_inv (run_operations X ops w)"
    by (rule registry_inv_run_operations)
qed

text \<open>The invariant after startup and along a run of six operations, two of them
  rejected; it fails before startup, and for an engine holding the provider \<open>bogus\<close>.\<close>

theorem registry_invariant_witness:
  "installs_defaults construct0 \<and> startup_event construct0 cold0 = Inr world0 \<and>
   registry_inv world0 \<and>
   registry_inv (snd (run_operation stub (SwitchMode \<lparr>mode = ''bogus''\<rparr>) world0)) \<and>
   registry_inv (run_operations stub operations0 world0) \<and>
   reported_provider (run_operations stub operations0 world0) = Some ''openai'' \<and>
   reported_mode (run_operations stub operations0 world0) = Some ''ethereal'' \<and>
   \<not> registry_inv cold0 \<and>
   \<not> registry_inv (world0\<lparr>primal_genesis := Some (engine0\<lparr>current_provider := ''bogus''\<rparr>)\<rparr>)"
proof -
  have h0: "installs_defaults construct0"
    by (simp add: installs_defaults_def construct0_def)
  have h1: "startup_event construct0 cold0 = Inr world0"
    by (simp add: startup_event_def construct0_def cold0_def world0_def engine0_def)
  have h2: "reported_provider (run_operations stub operations0 world0) = Some ''openai''"
    "reported_mode (run_operations stub operations0 world0) = Some ''ethereal''"
    by (simp_all add: operations0_def request_c2_def eval_defs)
  have h3: "\<not> registry_inv cold0"
    "\<not> registry_inv (world0\<lparr>primal_genesis := Some (engine0\<lparr>current_provider := ''bogus''\<rparr>)\<rparr>)"
    by (simp_all add: eval_defs)
  show ?thesis
    using registry_invariant[of construct0 cold0 world0 stub
        "SwitchMode \<lparr>mode = ''bogus''\<rparr>" operations0] h0 h1 h2 h3
    by blast
qed

section \<open>SwitchProvider twice\<close>

lemma fst_get_sovereign_status_cong:
  "primal_genesis w = primal_genesis w' \<Longrightarrow>
   fst (get_sovereign_status w) = fst (get_sovereign_status w')"
  by (simp add: get_sovereign_status_def get_sovereign_status_try_def except_Exception_def
      split: option.splits)

lemma environ_setitem_again:
  assumes "environ_setitem name val w = Inr w1"
  shows "environ_setitem name val w' =
           Inr (emit (EnvironSet name val) (w'\<lparr>environ := (environ w')(name \<mapsto> val)\<rparr>))"
  using assms by (auto simp: environ_setitem_def split: if_splits)

lemma switch_provider_twice:
  "primal_genesis (snd (switch_provider c (snd (switch_provider c w)))) =
     primal_genesis (snd (switch_provider c w))"
  "environ (snd (switch_provider c (snd (switch_provider c w)))) =
     environ (snd (switch_provider c w))"
proof -
  have "primal_genesis (snd (switch_provider c (snd (switch_provider c w)))) =
          primal_genesis (snd (switch_provider c w)) \<and>
        environ (snd (switch_provider c (snd (switch_provider c w)))) =
          environ (snd (switch_provider c w))"
  proof (cases c w rule: switch_provider_cases)
    case unchanged
    then show ?thesis by simp
  next
    case (switched e p)
    have e1: "primal_genesis (call_switch_provider p w) =
                Some (PrimalGenesisModel_switch_provider (provider_value p) e)"
      using switched(1) by (simp add: call_switch_provider_simps)
    have "snd (switch_provider c (call_switch_provider p w)) =
            call_switch_provider p (call_switch_provider p w)"
      using e1 switched(2,3)
      by (simp add: switch_provider_def switch_provider_try_def except_Exception_def Let_def)
    then show ?thesis
      using switched(4) switched(1)
      by (simp add: call_switch_provider_def emit_def PrimalGenesisModel_switch_provider_def)
  next
    case (installed e p d name)
    let ?w0 = "emit (EnvironSet name (api_key c)) (w\<lparr>environ := (environ w)(name \<mapsto> api_key c)\<rparr>)"
    let ?w1 = "call_switch_provider p ?w0"
    let ?e1 = "PrimalGenesisModel_switch_provider (provider_value p) e"
    have e1: "primal_genesis ?w1 = Some ?e1"
      using installed(1) by (simp add: call_switch_provider_def emit_def)
    have cfg: "provider_configs ?e1 = provider_configs e"
      by (simp add: PrimalGenesisModel_switch_provider_def)
    have again: "set_api_key c ?e1 ?w1 =
        Inr (emit (EnvironSet name (api_key c))
               (?w1\<lparr>environ := (environ ?w1)(name \<mapsto> api_key c)\<rparr>))"
      using installed(2,4,5) environ_setitem_again[OF installed(6), of ?w1]
      by (simp add: set_api_key_def cfg)
    have "snd (switch_provider c ?w1) =
        call_switch_provider p (emit (EnvironSet name (api_key c))
               (?w1\<lparr>environ := (environ ?w1)(name \<mapsto> api_key c)\<rparr>))"
      using e1 installed(2,3) again
      by (simp add: switch_provider_def switch_provider_try_def except_Exception_def Let_def)
    then show ?thesis
      using installed(7) installed(1)
      by (simp add: call_switch_provider_def emit_def PrimalGenesisModel_switch_provider_def)
  qed
  then show "primal_genesis (snd (switch_provider c (snd (switch_provider c w)))) =
     primal_genesis (snd (switch_provider c w))"
    and "environ (snd (switch_provider c (snd (switch_provider c w)))) =
     environ (snd (switch_provider c w))"
    by simp_all
qed

text \<open>
  C9, idempotence of SwitchProvider. For every request to \<open>switch_provider\<close>, valid or
  not, with or without a credential, and every state: calling it twice in a row leaves
  what GetStatus reports, the engine and the environment as calling it once does.
\<close>

theorem switch_provider_idempotent:
  "fst (get_sovereign_status (snd (switch_provider config (snd (switch_provider config w))))) =
     fst (get_sovereign_status (snd (switch_provider config w))) \<and>
   primal_genesis (snd (switch_provider config (snd (switch_provider config w)))) =
     primal_genesis (snd (switch_provider config w)) \<and>
   environ (snd (switch_provider config (snd (switch_provider config w)))) =
     environ (snd (switch_provider config w))"
  using switch_provider_twice[of config w]
    fst_get_sovereign_status_cong[OF switch_provider_twice(1)[of config w]]
  by simp

section \<open>The credential of SwitchProvider\<close>






section \<open>The live-status channel\<close>

lemma send_loop_trace:
  "trace (snd (send_loop ws schedule w)) =
     trace w @
     concat (map (\<lambda>(found, clock).
                    [SendText ws \<lparr>msg_type = ''status_update'',
                                 msg_data = map_option PrimalGenesisModel_get_sovereign_status found,
                                 msg_timestamp = clock\<rparr>,
                     Sleep 30])
               (butlast ((primal_genesis w, now_isoformat w) # found_on_wake schedule)))"
proof (induction schedule arbitrary: w)
  case Nil
  then show ?case by simp
next
  case (Cons c schedule)
  show ?case
  proof (cases c)
    case (Delivered found clock)
    then show ?thesis
      by (simp add: Cons.IH status_update_def emit_def)
  next
    case Disconnected
    then show ?thesis by simp
  qed
qed


lemma send_loop_result:
  "fst (send_loop ws schedule w) =
     (if Disconnected \<in> set schedule then Some WebSocketDisconnect else None)"
proof (induction schedule arbitrary: w)
  case Nil
  then show ?case by simp
next
  case (Cons c schedule)
  then show ?case by (cases c) simp_all
qed


text \<open>The state in which the handler enters its loop.\<close>

lemma websocket_endpoint_unfold:
  "websocket_endpoint ws schedule w =
     (case send_loop ws schedule
             (w\<lparr>active_connections := active_connections w @ [ws],
                trace := trace w @ [Accept ws]\<rparr>) of
        (None, w3) \<Rightarrow> (InLoop, w3)
      | (Some x, w3) \<Rightarrow>
          (if x = WebSocketDisconnect
           then (case list_remove ws (active_connections w3) of
                   Inl e \<Rightarrow> (Propagated e, w3)
                 | Inr conns \<Rightarrow> (Returned, w3\<lparr>active_connections := conns\<rparr>))
           else (Propagated x, w3)))"
proof -
  let ?w2 = "w\<lparr>active_connections := active_connections w @ [ws],
               trace := trace w @ [Accept ws]\<rparr>"
  have eq: "(emit (Accept ws) w)
              \<lparr>active_connections := active_connections (emit (Accept ws) w) @ [ws]\<rparr> = ?w2"
    by (simp add: emit_def)
  obtain r w3 where l: "send_loop ws schedule ?w2 = (r, w3)"
    by (cases "send_loop ws schedule ?w2")
  show ?thesis
    unfolding websocket_endpoint_def Let_def eq l
    by (cases r) (simp_all split: exn.splits)
qed

lemma trace_websocket_endpoint:
  "trace (snd (websocket_endpoint ws schedule w)) =
     trace (snd (send_loop ws schedule
       (w\<lparr>active_connections := active_connections w @ [ws],
          trace := trace w @ [Accept ws]\<rparr>)))"
  by (simp add: websocket_endpoint_unfold split: prod.splits option.splits sum.splits)

text \<open>
  C7. For every subscriber, every state and every schedule, the effects of
  \<open>websocket_endpoint\<close> are: the connection is accepted; then, for each send that is
  delivered before the first disconnect, a \<open>status_update\<close> message is sent whose data is
  the configuration snapshot of the engine as it is at that moment, stamped with the
  clock of that moment, and the handler sleeps 30. The first message carries the state
  at subscription and goes out at once, with no sleep before it; each later one carries
  what the handler has found on waking, and follows the previous one by exactly one
  sleep of 30 time units.
\<close>

theorem live_status_cycles:
  "trace (snd (websocket_endpoint ws schedule w)) =
     trace w @ Accept ws #
       concat (map (\<lambda>(found, clock).
                      [SendText ws
                         \<lparr>msg_type = ''status_update'',
                          msg_data = map_option PrimalGenesisModel_get_sovereign_status found,
                          msg_timestamp = clock\<rparr>,
                       Sleep 30])
                 (butlast ((primal_genesis w, now_isoformat w) # found_on_wake schedule)))"
  by (simp add: trace_websocket_endpoint send_loop_trace)

text \<open>Two cycles and a disconnect, with a provider switch by another task during the
  first sleep: the second snapshot shows the new provider and the later clock.\<close>

theorem live_status_cycles_witness:
  "trace (snd (websocket_endpoint 7 schedule0 world0)) =
     [Accept 7,
      SendText 7
        \<lparr>msg_type = ''status_update'',
         msg_data = Some \<lparr>st_sovereign_awakened = True, st_current_provider = ''mistral'',
                          st_mystical_mode = ''sovereign'', st_ethereal_frequency = 144,
                          st_quantum_entropy_level = 42, st_shadow_tendrils_active = True,
                          st_phantom_analytics_enabled = True\<rparr>,
         msg_timestamp = ''2024-01-01T00:00:00''\<rparr>,
      Sleep 30,
      SendText 7
        \<lparr>msg_type = ''status_update'',
         msg_data = Some \<lparr>st_sovereign_awakened = True, st_current_provider = ''openai'',
                          st_mystical_mode = ''sovereign'', st_ethereal_frequency = 144,
                          st_quantum_entropy_level = 42, st_shadow_tendrils_active = True,
                          st_phantom_analytics_enabled = True\<rparr>,
         msg_timestamp = ''2024-01-01T00:00:30''\<rparr>,
      Sleep 30]"
  using live_status_cycles[of 7 schedule0 world0]
  by (simp add: schedule0_def world0_def engine0_def PrimalGenesisModel_get_sovereign_status_def)

section \<open>Leaving the live-status channel\<close>







section \<open>Before the engine is initialised\<close>

text \<open>
  C10. While the global engine is absent, at subscription and on every wake: a subscriber
  to the live-status channel whose sends are delivered stays in the loop, no exception
  leaves the handler, and every cycle sends a \<open>status_update\<close> message whose data is the
  empty dictionary, stamped with the clock of that cycle; whereas \<open>generate_traffic\<close>,
  \<open>switch_provider\<close>, \<open>switch_mystical_mode\<close> and \<open>get_sovereign_status\<close> each answer
  with a 500 that carries the not-initialized error, and change nothing.
\<close>

theorem uninitialized_engine:
  assumes "primal_genesis w = None"
  shows "fst (websocket_endpoint ws (map (Delivered None) clocks) w) = InLoop \<and>
         trace (snd (websocket_endpoint ws (map (Delivered None) clocks) w)) =
           trace w @ Accept ws #
             concat (map (\<lambda>clock. [SendText ws (empty_update clock), Sleep 30])
                       (butlast (now_isoformat w # clocks))) \<and>
         generate_traffic X request w = (Inl (HTTPException 500 (StrOf not_initialized)), w) \<and>
         switch_provider config w = (Inl (HTTPException 500 (StrOf not_initialized)), w) \<and>
         switch_mystical_mode mrequest w = (Inl (HTTPException 500 (StrOf not_initialized)), w) \<and>
         get_sovereign_status w = (Inl (HTTPException 500 (StrOf not_initialized)), w)"
proof -
  let ?w2 = "w\<lparr>active_connections := active_connections w @ [ws],
               trace := trace w @ [Accept ws]\<rparr>"
  have nd: "Disconnected \<notin> set (map (Delivered None) clocks)" by auto
  have "fst (send_loop ws (map (Delivered None) clocks) ?w2) = None"
    using nd by (simp only: send_loop_result if_False)
  then have i: "fst (websocket_endpoint ws (map (Delivered None) clocks) w) = InLoop"
    by (cases "send_loop ws (map (Delivered None) clocks) ?w2")
       (simp add: websocket_endpoint_unfold)
  have f: "found_on_wake (map (Delivered None) clocks) = map (Pair None) clocks"
    by (induction clocks) simp_all
  have bl: "butlast ((None, now_isoformat w) # map (Pair None) clocks) =
            map (Pair None) (butlast (now_isoformat w # clocks))"
    by (simp add: map_butlast[symmetric])
  have t: "trace (snd (websocket_endpoint ws (map (Delivered None) clocks) w)) =
           trace w @ Accept ws #
             concat (map (\<lambda>clock. [SendText ws (empty_update clock), Sleep 30])
                       (butlast (now_isoformat w # clocks)))"
    unfolding trace_websocket_endpoint send_loop_trace
    using assms by (simp add: f bl empty_update_def comp_def del: butlast.simps)
  have g: "generate_traffic X request w = (Inl (HTTPException 500 (StrOf not_initialized)), w)"
    using assms by (simp add: generate_traffic_def generate_traffic_try_def except_Exception_def)
  have sp: "switch_provider config w = (Inl (HTTPException 500 (StrOf not_initialized)), w)"
    using assms by (simp add: switch_provider_def switch_provider_try_def except_Exception_def)
  have sm: "switch_mystical_mode mrequest w =
              (Inl (HTTPException 500 (StrOf not_initialized)), w)"
    using assms
    by (simp add: switch_mystical_mode_def switch_mystical_mode_try_def except_Exception_def)
  have gs: "get_sovereign_status w = (Inl (HTTPException 500 (StrOf not_initialized)), w)"
    using assms
    by (simp add: get_sovereign_status_def get_sovereign_status_try_def except_Exception_def)
  from i t g sp sm gs show ?thesis by blast
qed

text \<open>The same at the state before startup, with two cycles.\<close>

theorem uninitialized_engine_witness:
  "primal_genesis cold0 = None \<and>
   fst (websocket_endpoint 7 (map (Delivered None) [''2024-01-01T00:00:30'', ''2024-01-01T00:01:00'']) cold0) = InLoop \<and>
   trace (snd (websocket_endpoint 7 (map (Delivered None) [''2024-01-01T00:00:30'', ''2024-01-01T00:01:00'']) cold0)) =
     [Accept 7, SendText 7 (empty_update ''2024-01-01T00:00:00''), Sleep 30,
                SendText 7 (empty_update ''2024-01-01T00:00:30''), Sleep 30] \<and>
   msg_data (empty_update ''2024-01-01T00:00:30'') = None \<and>
   status_code (fst (generate_traffic stub request0 cold0)) = 500 \<and>
   status_code (fst (switch_provider config0 cold0)) = 500 \<and>
   status_code (fst (switch_mystical_mode \<lparr>mode = ''ethereal''\<rparr> cold0)) = 500 \<and>
   status_code (fst (get_sovereign_status cold0)) = 500"
proof -
  have h1: "primal_genesis cold0 = None" by (simp add: cold0_def)
  have h2: "trace cold0 = []" "now_isoformat cold0 = ''2024-01-01T00:00:00''"
    by (simp_all add: cold0_def world0_def)
  have h3: "msg_data (empty_update ''2024-01-01T00:00:30'') = None"
    by (simp add: empty_update_def)
  show ?thesis
    using uninitialized_engine[OF h1, of 7 "[''2024-01-01T00:00:30'', ''2024-01-01T00:01:00'']"
        stub request0 config0 "\<lparr>mode = ''ethereal''\<rparr>"]
      h1 h2 h3
    by simp
qed

end
